theory Spec2Isabelle
  imports Main
begin

section \<open>JavaScript strings and numbers\<close>

text \<open>
  A JavaScript string is modelled as a \<open>string\<close> whose characters are the code units
  below 256. Character classes follow ECMAScript on that range: white space (what
  \<open>\s\<close> matches and \<open>trim\<close> strips) is TAB, LF, VT, FF, CR, SPACE and NBSP;
  \<open>\w\<close> is \<open>[A-Za-z0-9_]\<close>; \<open>\d\<close> is \<open>[0-9]\<close>.
\<close>

definition is_space :: "char \<Rightarrow> bool" where
  "is_space c = ((of_char c :: nat) \<in> {9, 10, 11, 12, 13, 32, 160})"

definition is_digit :: "char \<Rightarrow> bool" where
  "is_digit c = (48 \<le> (of_char c :: nat) \<and> (of_char c :: nat) \<le> 57)"

definition is_word :: "char \<Rightarrow> bool" where
  "is_word c = (let n = (of_char c :: nat) in
     (65 \<le> n \<and> n \<le> 90) \<or> (97 \<le> n \<and> n \<le> 122) \<or> (48 \<le> n \<and> n \<le> 57) \<or> n = 95)"

text \<open>
  \<open>String.prototype.toLowerCase\<close> on code units below 256: the ASCII capitals and the
  Latin-1 capitals (0xC0 to 0xDE without the multiplication sign 0xD7) move up by 32.
\<close>

definition char_toLowerCase :: "char \<Rightarrow> char" where
  "char_toLowerCase c = (let n = (of_char c :: nat) in
     if (65 \<le> n \<and> n \<le> 90) \<or> (192 \<le> n \<and> n \<le> 222 \<and> n \<noteq> 215)
     then char_of (n + 32) else c)"

definition toLowerCase :: "string \<Rightarrow> string" where
  "toLowerCase s = map char_toLowerCase s"

text \<open>
  The canonical form a regular expression with the \<open>i\<close> flag compares characters in.
  ECMAScript maps a character to its upper case unless that would turn a non-ASCII
  character into an ASCII one; every literal of the patterns below is ASCII, so only the
  folding of the ASCII small letters decides a comparison with them.
\<close>

definition canonicalize :: "char \<Rightarrow> char" where
  "canonicalize c = (let n = (of_char c :: nat) in
     if 97 \<le> n \<and> n \<le> 122 then char_of (n - 32) else c)"

definition trim :: "string \<Rightarrow> string" where
  "trim s = rev (dropWhile is_space (rev (dropWhile is_space s)))"

fun join :: "string \<Rightarrow> string list \<Rightarrow> string" where
  "join sep [] = []"
| "join sep [x] = x"
| "join sep (x # y # ys) = x @ sep @ join sep (y # ys)"

text \<open>
  A JavaScript number, as far as the code uses one: it is interpolated into a template
  literal and tested for truthiness. A safe integer (magnitude at most \<open>2^53 - 1\<close>)
  is kept as its value and prints in plain decimal. Any other number (a fraction, a larger
  magnitude, \<open>NaN\<close>, an infinity) is kept as the text \<open>ToString\<close> gives for it, such
  as \<open>1e+21\<close> or \<open>2.5\<close>.
\<close>

typedef safe_integer = "{i :: int. - 9007199254740991 \<le> i \<and> i \<le> 9007199254740991}"
  by (rule exI [of _ 0]) simp

datatype js_number = SafeInteger safe_integer | OtherNumber string

fun digits :: "nat \<Rightarrow> string" where
  "digits n = (if n < 10 then [char_of (48 + n)]
               else digits (n div 10) @ [char_of (48 + n mod 10)])"

declare digits.simps [simp del]

definition number_toString :: "js_number \<Rightarrow> string" where
  "number_toString n =
     (case n of
        SafeInteger k \<Rightarrow>
          (let i = Rep_safe_integer k in
           if i < 0 then ''-'' @ digits (nat (- i)) else digits (nat i))
      | OtherNumber text \<Rightarrow> text)"

text \<open>Falsy numbers are zero and \<open>NaN\<close>.\<close>

definition number_falsy :: "js_number \<Rightarrow> bool" where
  "number_falsy n =
     (case n of SafeInteger k \<Rightarrow> Rep_safe_integer k = 0 | OtherNumber text \<Rightarrow> text = ''NaN'')"

definition one_thousand :: js_number where
  "one_thousand = SafeInteger (Abs_safe_integer 1000)"

section \<open>Regular expressions\<close>

text \<open>
  The fragment of regular expressions the validator's three patterns are written in:
  single-character atoms, their \<open>*\<close>, \<open>+\<close> and \<open>?\<close> repetitions, sequence,
  alternation and the end-of-input assertion \<open>$\<close>. All three patterns carry the
  \<open>i\<close> flag, so a literal matches in either case.
\<close>

datatype atom = Lit char | Space | Word | Digit

fun atom_match :: "atom \<Rightarrow> char \<Rightarrow> bool" where
  "atom_match (Lit a) c = (canonicalize a = canonicalize c)"
| "atom_match Space c = is_space c"
| "atom_match Word c = is_word c"
| "atom_match Digit c = is_digit c"

datatype regex =
    Eps
  | Atom atom
  | Star atom
  | Plus atom
  | Opt atom
  | Seq regex regex
  | Alt regex regex
  | EndOfInput

text \<open>
  \<open>matchk r s k\<close>: some prefix of \<open>s\<close> matches \<open>r\<close> and the continuation \<open>k\<close>
  accepts what is left. The input passed along is always a suffix of the whole text, so
  \<open>$\<close> holds exactly on the empty remainder.
\<close>

fun matchk :: "regex \<Rightarrow> string \<Rightarrow> (string \<Rightarrow> bool) \<Rightarrow> bool" where
  "matchk Eps s k = k s"
| "matchk (Atom a) [] k = False"
| "matchk (Atom a) (c # cs) k = (atom_match a c \<and> k cs)"
| "matchk (Star a) [] k = k []"
| "matchk (Star a) (c # cs) k = ((atom_match a c \<and> matchk (Star a) cs k) \<or> k (c # cs))"
| "matchk (Plus a) [] k = False"
| "matchk (Plus a) (c # cs) k = (atom_match a c \<and> matchk (Star a) cs k)"
| "matchk (Opt a) [] k = k []"
| "matchk (Opt a) (c # cs) k = ((atom_match a c \<and> k cs) \<or> k (c # cs))"
| "matchk (Seq r1 r2) s k = matchk r1 s (\<lambda>t. matchk r2 t k)"
| "matchk (Alt r1 r2) s k = (matchk r1 s k \<or> matchk r2 s k)"
| "matchk EndOfInput s k = (s = [] \<and> k [])"

text \<open>A pattern that starts with \<open>^\<close> is tried at offset 0 only.\<close>

definition regex_test_at_start :: "regex \<Rightarrow> string \<Rightarrow> bool" where
  "regex_test_at_start r s = matchk r s (\<lambda>_. True)"

text \<open>
  \<open>RegExp.prototype.test\<close>, and whether \<open>String.prototype.match\<close> returns a match,
  for a pattern without the global flag: the pattern is tried at every offset.
\<close>

fun regex_test :: "regex \<Rightarrow> string \<Rightarrow> bool" where
  "regex_test r [] = matchk r [] (\<lambda>_. True)"
| "regex_test r (c # cs) = (matchk r (c # cs) (\<lambda>_. True) \<or> regex_test r cs)"

fun lit :: "string \<Rightarrow> regex" where
  "lit [] = Eps"
| "lit [c] = Atom (Lit c)"
| "lit (c # cs) = Seq (Atom (Lit c)) (lit cs)"

fun seqs :: "regex list \<Rightarrow> regex" where
  "seqs [] = Eps"
| "seqs [r] = r"
| "seqs (r # rs) = Seq r (seqs rs)"

section \<open>The SQL validator (src/utils/validator.ts)\<close>

record SQLAnalysis =
  isValid :: bool
  isReadOnly :: bool
  type :: string
  tables :: "string list"
  errors :: "string list"
  warnings :: "string list"

text \<open>
  What \<open>Parser.astify\<close> of node-sql-parser returns, as far as the validator reads it:
  one statement or an array of statements. A statement may be \<open>null\<close> (\<open>None\<close>);
  its \<open>type\<close>, \<open>from\<close>, \<open>into\<close> and \<open>table\<close> properties may be absent. A
  \<open>from\<close> clause is an array of items or some other truthy value. An item is an object
  whose \<open>table\<close> property may be absent; an array standing where an item is expected
  (the parser's \<open>stmt.table\<close> of an UPDATE) is an item without that property.
\<close>

record from_item =
  item_table :: "string option"
  item_as :: "string option"

datatype from_clause = FromArray "from_item list" | FromOther

record statement =
  stmt_type :: "string option"
  stmt_from :: "from_clause option"
  stmt_into :: "from_item option"
  stmt_table :: "from_item option"

datatype ast = Single "statement option" | Multiple "statement option list"

text \<open>
  The parser is an external capability: it returns the syntax tree or throws an error
  whose message is the \<open>Inl\<close> value.
\<close>

type_synonym parser = "string \<Rightarrow> string + ast"

text \<open>JavaScript truthiness of an optional string: present and not empty.\<close>

fun truthy :: "string option \<Rightarrow> bool" where
  "truthy None = False"
| "truthy (Some s) = (s \<noteq> [])"

definition writeOperations :: "string list" where
  "writeOperations =
     [''insert'', ''update'', ''delete'', ''create'', ''drop'', ''alter'', ''truncate'']"

fun extractTables_items :: "from_item list \<Rightarrow> string list \<Rightarrow> string list" where
  "extractTables_items [] tbls = tbls"
| "extractTables_items (item # items) tbls =
     extractTables_items items
       (if truthy (item_table item) then tbls @ [the (item_table item)] else tbls)"

fun extractTables :: "from_clause \<Rightarrow> string list \<Rightarrow> string list" where
  "extractTables FromOther tbls = tbls"
| "extractTables (FromArray items) tbls = extractTables_items items tbls"

definition analyzeStatement :: "statement option \<Rightarrow> SQLAnalysis \<Rightarrow> SQLAnalysis" where
  "analyzeStatement stmt result =
     (case stmt of
        None \<Rightarrow> result
      | Some s \<Rightarrow>
          if \<not> truthy (stmt_type s) then result
          else
            let r1 = result\<lparr>type := toLowerCase (the (stmt_type s))\<rparr>;
                r2 = (if type r1 \<in> set writeOperations then r1\<lparr>isReadOnly := False\<rparr> else r1);
                r3 = (case stmt_from s of
                        None \<Rightarrow> r2
                      | Some f \<Rightarrow> r2\<lparr>tables := extractTables f (tables r2)\<rparr>);
                r4 = (case stmt_into s of
                        None \<Rightarrow> r3
                      | Some i \<Rightarrow>
                          if truthy (item_table i)
                          then r3\<lparr>tables := tables r3 @ [the (item_table i)]\<rparr> else r3);
                r5 = (case stmt_table s of
                        None \<Rightarrow> r4
                      | Some t \<Rightarrow> r4\<lparr>tables := extractTables (FromArray [t]) (tables r4)\<rparr>)
            in r5)"

definition initial_analysis :: SQLAnalysis where
  "initial_analysis =
     \<lparr>isValid = False, isReadOnly = True, type = ''unknown'', tables = [], errors = [],
      warnings = []\<rparr>"

fun analyzeStatements :: "statement option list \<Rightarrow> SQLAnalysis \<Rightarrow> SQLAnalysis" where
  "analyzeStatements [] result = result"
| "analyzeStatements (stmt # stmts) result = analyzeStatements stmts (analyzeStatement stmt result)"

definition analyze :: "parser \<Rightarrow> string \<Rightarrow> SQLAnalysis" where
  "analyze astify sql =
     (let result = initial_analysis in
      case astify sql of
        Inl message \<Rightarrow> result\<lparr>errors := errors result @ [''Parse error: '' @ message]\<rparr>
      | Inr tree \<Rightarrow>
          let result = result\<lparr>isValid := True\<rparr> in
          (case tree of
             Multiple stmts \<Rightarrow>
               analyzeStatements stmts
                 (result\<lparr>warnings := warnings result @ [''Multiple statements detected'']\<rparr>)
           | Single stmt \<Rightarrow> analyzeStatement stmt result))"

record validation =
  safe :: bool
  reason :: "string option"

text \<open>The pattern \<open>/;\s*(DROP|TRUNCATE|DELETE\s+FROM\s+\w+\s*;?\s*$)/i\<close>.\<close>

definition delete_from_pattern :: regex where
  "delete_from_pattern =
     seqs [lit ''DELETE'', Plus Space, lit ''FROM'', Plus Space, Plus Word,
           Star Space, Opt (Lit (CHR '';'')), Star Space, EndOfInput]"

definition dangerous_pattern :: regex where
  "dangerous_pattern =
     seqs [Atom (Lit (CHR '';'')), Star Space,
           Alt (lit ''DROP'') (Alt (lit ''TRUNCATE'') delete_from_pattern)]"

definition validateSafe :: "parser \<Rightarrow> string \<Rightarrow> bool \<Rightarrow> validation" where
  "validateSafe astify sql readOnlyMode =
     (let analysis = analyze astify sql in
      if \<not> isValid analysis
      then \<lparr>safe = False, reason = Some (join ''; '' (errors analysis))\<rparr>
      else if readOnlyMode \<and> \<not> isReadOnly analysis
      then \<lparr>safe = False, reason = Some ''Write operations not allowed in read-only mode''\<rparr>
      else if regex_test dangerous_pattern sql
      then \<lparr>safe = False, reason = Some ''Potentially dangerous operation detected''\<rparr>
      else \<lparr>safe = True, reason = None\<rparr>)"

text \<open>The patterns \<open>/LIMIT\s+\d+/i\<close> and \<open>/^SELECT/i\<close>.\<close>

definition limit_pattern :: regex where
  "limit_pattern = seqs [lit ''LIMIT'', Plus Space, Plus Digit]"

definition select_pattern :: regex where
  "select_pattern = lit ''SELECT''"

text \<open>
  \<open>addLimit(sql, limit = 1000)\<close>: the default applies when the argument is left out
  (\<open>None\<close>).
\<close>

definition addLimit :: "string \<Rightarrow> js_number option \<Rightarrow> string" where
  "addLimit sql limit_arg =
     (let limit = (case limit_arg of None \<Rightarrow> one_thousand | Some l \<Rightarrow> l);
          trimmed = trim sql in
      if regex_test limit_pattern trimmed then sql
      else if regex_test_at_start select_pattern trimmed
      then trimmed @ '' LIMIT '' @ number_toString limit
      else sql)"

section \<open>What the patterns and the analysis mean\<close>

text \<open>
  The meaning of a regular expression, stated without reference to the matcher:
  \<open>sem r u v\<close> holds when \<open>r\<close> matches exactly the text \<open>u\<close> and \<open>v\<close> is the
  rest of the input after it (\<open>$\<close> needs that rest to be empty).
\<close>

fun sem :: "regex \<Rightarrow> string \<Rightarrow> string \<Rightarrow> bool" where
  "sem Eps u v = (u = [])"
| "sem (Atom a) u v = (\<exists>c. u = [c] \<and> atom_match a c)"
| "sem (Star a) u v = list_all (atom_match a) u"
| "sem (Plus a) u v = (u \<noteq> [] \<and> list_all (atom_match a) u)"
| "sem (Opt a) u v = (u = [] \<or> (\<exists>c. u = [c] \<and> atom_match a c))"
| "sem (Seq r1 r2) u v = (\<exists>u1 u2. u = u1 @ u2 \<and> sem r1 u1 (u2 @ v) \<and> sem r2 u2 v)"
| "sem (Alt r1 r2) u v = (sem r1 u v \<or> sem r2 u v)"
| "sem EndOfInput u v = (u = [] \<and> v = [])"

text \<open>Two texts that differ in the case of ASCII letters only.\<close>

definition ci_equal :: "string \<Rightarrow> string \<Rightarrow> bool" where
  "ci_equal a b = (map canonicalize a = map canonicalize b)"

definition ci_starts_with :: "string \<Rightarrow> string \<Rightarrow> bool" where
  "ci_starts_with w t = ci_equal w (take (length w) t)"

text \<open>
  The stacked-statement pattern in the words of the specification: a semicolon, any
  white space, and then \<open>DROP\<close>, or \<open>TRUNCATE\<close>, or a \<open>DELETE FROM <identifier>\<close>
  that runs to the end of the text, optionally closed by one more semicolon.
\<close>

definition delete_statement_tail :: "string \<Rightarrow> bool" where
  "delete_statement_tail t =
     (\<exists>kw1 ws1 kw2 ws2 ident ws3 semi ws4.
        t = kw1 @ ws1 @ kw2 @ ws2 @ ident @ ws3 @ semi @ ws4 \<and>
        ci_equal ''DELETE'' kw1 \<and> ws1 \<noteq> [] \<and> list_all is_space ws1 \<and>
        ci_equal ''FROM'' kw2 \<and> ws2 \<noteq> [] \<and> list_all is_space ws2 \<and>
        ident \<noteq> [] \<and> list_all is_word ident \<and> list_all is_space ws3 \<and>
        (semi = [] \<or> semi = '';'') \<and> list_all is_space ws4)"

definition stacked_statement_pattern :: "string \<Rightarrow> bool" where
  "stacked_statement_pattern sql =
     (\<exists>pre ws rest.
        sql = pre @ '';'' @ ws @ rest \<and> list_all is_space ws \<and>
        (ci_starts_with ''DROP'' rest \<or> ci_starts_with ''TRUNCATE'' rest \<or>
         delete_statement_tail rest))"

text \<open>A \<open>LIMIT <number>\<close> clause anywhere in a text, in the words of the specification.\<close>

definition contains_limit_clause :: "string \<Rightarrow> bool" where
  "contains_limit_clause t =
     (\<exists>pre kw ws ds post.
        t = pre @ kw @ ws @ ds @ post \<and> ci_equal ''LIMIT'' kw \<and>
        ws \<noteq> [] \<and> list_all is_space ws \<and> ds \<noteq> [] \<and> list_all is_digit ds)"

text \<open>
  The lowercase kind of a statement that \<open>analyzeStatement\<close> classifies; \<open>None\<close> for
  a statement its guard skips (a null statement, or one without a \<open>type\<close>).
\<close>

definition statement_kind :: "statement option \<Rightarrow> string option" where
  "statement_kind stmt =
     (case stmt of
        None \<Rightarrow> None
      | Some s \<Rightarrow> if truthy (stmt_type s) then Some (toLowerCase (the (stmt_type s))) else None)"

section \<open>Schema metadata (src/types.ts)\<close>

record ColumnMetadata =
  col_name :: string
  col_type :: string
  nullable :: bool
  defaultValue :: "string option"
  isPrimaryKey :: bool
  isForeignKey :: bool
  maxLength :: "int option"
  precision :: "int option"
  scale :: "int option"

record ForeignKeyMetadata =
  fk_name :: string
  fk_column :: string
  referencedTable :: string
  referencedColumn :: string
  onDelete :: "string option"
  onUpdate :: "string option"

record TableMetadata =
  tbl_name :: string
  tbl_schema :: "string option"
  columns :: "ColumnMetadata list"
  foreignKeys :: "ForeignKeyMetadata list"
  primaryKey :: "string list option"
  tbl_rowCount :: "int option"

record DatabaseMetadata =
  db_name :: string
  schemas :: "string list option"
  db_tables :: "TableMetadata list"

text \<open>A result row is kept as its column names with the rendered values.\<close>

type_synonym row = "(string \<times> string) list"

record QueryResult =
  rows :: "row list"
  rowCount :: int
  result_fields :: "(string \<times> string) list option"

section \<open>The semantic layer (src/semantic/index.ts)\<close>

definition qualified_name :: "TableMetadata \<Rightarrow> string" where
  "qualified_name t =
     (if truthy (tbl_schema t) then the (tbl_schema t) @ ''.'' @ tbl_name t else tbl_name t)"

definition column_parts :: "ColumnMetadata \<Rightarrow> string list" where
  "column_parts c =
     [col_name c, col_type c] @
     (if isPrimaryKey c then [''PK''] else []) @
     (if isForeignKey c then [''FK''] else []) @
     (if \<not> nullable c then [''NOT NULL''] else [])"

definition generateCompactSchema :: "DatabaseMetadata \<Rightarrow> string" where
  "generateCompactSchema metadata =
     join [CHR 0x0A]
       (map (\<lambda>t. qualified_name t @ '' ('' @
                  join '', '' (map (\<lambda>c. join '' '' (column_parts c)) (columns t)) @ '')'')
          (db_tables metadata))"

definition generateTablesList :: "DatabaseMetadata \<Rightarrow> string list" where
  "generateTablesList metadata = map qualified_name (db_tables metadata)"

definition endsWith :: "string \<Rightarrow> string \<Rightarrow> bool" where
  "endsWith s suffix =
     (length suffix \<le> length s \<and> drop (length s - length suffix) s = suffix)"

definition findTable :: "DatabaseMetadata \<Rightarrow> string \<Rightarrow> TableMetadata option" where
  "findTable metadata tableName =
     List.find
       (\<lambda>t. tbl_name t = tableName \<or>
            (truthy (tbl_schema t) \<and> the (tbl_schema t) @ ''.'' @ tbl_name t = tableName) \<or>
            endsWith tableName (''.'' @ tbl_name t))
       (db_tables metadata)"

section \<open>The database provider (src/providers/interface.ts)\<close>

text \<open>
  The provider is an external capability over a database state \<open>'d\<close>. Each of its
  operations returns its value, or the message of the error it throws (\<open>Inl\<close>),
  together with the new state. Every call made to the provider is recorded in
  \<open>db_trace\<close>, in order.
\<close>

record 'd IDatabaseProvider =
  listTables :: "string option \<Rightarrow> 'd \<Rightarrow> (string + string list) \<times> 'd"
  describeTable :: "string \<Rightarrow> string option \<Rightarrow> 'd \<Rightarrow> (string + TableMetadata) \<times> 'd"
  runQuery :: "string \<Rightarrow> 'd \<Rightarrow> (string + QueryResult) \<times> 'd"

datatype db_event =
    ListTablesCall "string option"
  | DescribeTableCall string "string option"
  | RunQueryCall string

record 'd db_world =
  db :: 'd
  db_trace :: "db_event list"

definition call_listTables ::
  "'d IDatabaseProvider \<Rightarrow> string option \<Rightarrow> 'd db_world \<Rightarrow> (string + string list) \<times> 'd db_world" where
  "call_listTables provider sch w =
     (case listTables provider sch (db w) of
        (r, d) \<Rightarrow> (r, \<lparr>db = d, db_trace = db_trace w @ [ListTablesCall sch]\<rparr>))"

definition call_describeTable ::
  "'d IDatabaseProvider \<Rightarrow> string \<Rightarrow> string option \<Rightarrow> 'd db_world \<Rightarrow>
     (string + TableMetadata) \<times> 'd db_world" where
  "call_describeTable provider tableName sch w =
     (case describeTable provider tableName sch (db w) of
        (r, d) \<Rightarrow> (r, \<lparr>db = d, db_trace = db_trace w @ [DescribeTableCall tableName sch]\<rparr>))"

definition call_runQuery ::
  "'d IDatabaseProvider \<Rightarrow> string \<Rightarrow> 'd db_world \<Rightarrow> (string + QueryResult) \<times> 'd db_world" where
  "call_runQuery provider sql w =
     (case runQuery provider sql (db w) of
        (r, d) \<Rightarrow> (r, \<lparr>db = d, db_trace = db_trace w @ [RunQueryCall sql]\<rparr>))"

section \<open>The tool registry (src/mcp/tools.ts)\<close>

record param_property =
  prop_type :: string
  prop_description :: string
  prop_items :: "string option"

record tool_parameters =
  params_type :: string
  properties :: "(string \<times> param_property) list"
  required :: "string list"

text \<open>
  The parameter object a handler receives, read through the tools' parameter schemas:
  the properties a schema requires (\<open>table_name\<close>, \<open>description\<close>, \<open>sql\<close>) are
  strings, the others may be absent.
\<close>

record tool_args =
  arg_schema :: "string option"
  arg_table_name :: string
  arg_description :: string
  arg_tables :: "string list option"
  arg_sql :: string
  arg_limit :: "js_number option"

text \<open>What the five handlers return, one constructor for each object shape.\<close>

datatype tool_result =
    TablesListing "string list" nat
  | TableDescription TableMetadata
  | SqlGenerationNote string string "string list option"
  | SqlExplanation string bool string "string list" bool "string list" "string list"
  | QueryOutcome "row list" int "(string \<times> string) list option" bool

text \<open>
  The fields of the registry that its setters change. A handler is a closure over the
  registry: it reads these fields when it is called, and it holds the provider and the
  validator it was built with.
\<close>

record registry_fields =
  readOnlyMode :: bool
  reg_metadata :: "DatabaseMetadata option"

type_synonym 'd handler =
  "registry_fields \<Rightarrow> tool_args \<Rightarrow> 'd db_world \<Rightarrow> (string + tool_result) \<times> 'd db_world"

record 'd MCPTool =
  name :: string
  description :: string
  parameters :: tool_parameters
  handler :: "'d handler"

record 'd MCPToolRegistry =
  tools :: "(string \<times> 'd MCPTool) list"
  reg_fields :: registry_fields

text \<open>\<open>Map.prototype.set\<close>: a new key goes to the end, a known key keeps its place.\<close>

fun map_set :: "'k \<Rightarrow> 'v \<Rightarrow> ('k \<times> 'v) list \<Rightarrow> ('k \<times> 'v) list" where
  "map_set k v [] = [(k, v)]"
| "map_set k v ((k', v') # m) = (if k = k' then (k, v) # m else (k', v') # map_set k v m)"

definition list_tables_handler :: "'d IDatabaseProvider \<Rightarrow> 'd handler" where
  "list_tables_handler provider this params w =
     (case reg_metadata this of
        Some metadata \<Rightarrow>
          (let tbls = generateTablesList metadata in (Inr (TablesListing tbls (length tbls)), w))
      | None \<Rightarrow>
          (case call_listTables provider (arg_schema params) w of
             (Inl message, w') \<Rightarrow> (Inl message, w')
           | (Inr tbls, w') \<Rightarrow> (Inr (TablesListing tbls (length tbls)), w')))"

definition describe_table_from_provider ::
  "'d IDatabaseProvider \<Rightarrow> tool_args \<Rightarrow> 'd db_world \<Rightarrow> (string + tool_result) \<times> 'd db_world" where
  "describe_table_from_provider provider params w =
     (case call_describeTable provider (arg_table_name params) (arg_schema params) w of
        (Inl message, w') \<Rightarrow> (Inl message, w')
      | (Inr t, w') \<Rightarrow> (Inr (TableDescription t), w'))"

definition describe_table_handler :: "'d IDatabaseProvider \<Rightarrow> 'd handler" where
  "describe_table_handler provider this params w =
     (case reg_metadata this of
        Some metadata \<Rightarrow>
          (case findTable metadata (arg_table_name params) of
             Some t \<Rightarrow> (Inr (TableDescription t), w)
           | None \<Rightarrow> describe_table_from_provider provider params w)
      | None \<Rightarrow> describe_table_from_provider provider params w)"

definition generate_sql_handler :: "'d handler" where
  "generate_sql_handler this params w =
     (Inr (SqlGenerationNote ''SQL generation should be handled by the LLM''
             (arg_description params) (arg_tables params)), w)"

definition explain_sql_handler :: "parser \<Rightarrow> 'd handler" where
  "explain_sql_handler astify this params w =
     (let analysis = analyze astify (arg_sql params) in
      (Inr (SqlExplanation (arg_sql params) (isValid analysis) (type analysis) (tables analysis)
              (isReadOnly analysis) (errors analysis) (warnings analysis)), w))"

text \<open>
  \<open>params.limit || 1000\<close>: an absent limit and a falsy one give 1000. The reason of
  a failed validation is interpolated into the message of the error thrown.
\<close>

definition run_sql_handler :: "parser \<Rightarrow> 'd IDatabaseProvider \<Rightarrow> 'd handler" where
  "run_sql_handler astify provider this params w =
     (let limit = (case arg_limit params of
                     None \<Rightarrow> one_thousand
                   | Some l \<Rightarrow> if number_falsy l then one_thousand else l);
          validation = validateSafe astify (arg_sql params) (readOnlyMode this)
      in
      if \<not> safe validation
      then (Inl (''SQL validation failed: '' @
                 (case reason validation of None \<Rightarrow> ''undefined'' | Some r \<Rightarrow> r)), w)
      else
        let analysis = analyze astify (arg_sql params);
            sql = (if type analysis = ''select'' then addLimit (arg_sql params) (Some limit)
                   else arg_sql params)
        in
        case call_runQuery provider sql w of
          (Inl message, w') \<Rightarrow> (Inl message, w')
        | (Inr result, w') \<Rightarrow>
            (Inr (QueryOutcome (rows result) (rowCount result) (result_fields result)
                    (type analysis = ''select'')), w'))"

definition list_tables_tool :: "'d IDatabaseProvider \<Rightarrow> 'd MCPTool" where
  "list_tables_tool provider =
     \<lparr>name = ''list_tables'',
      description = ''List all tables in the database with their schemas'',
      parameters =
        \<lparr>params_type = ''object'',
         properties =
           [(''schema'', \<lparr>prop_type = ''string'',
               prop_description = ''Optional schema name to filter tables'', prop_items = None\<rparr>)],
         required = []\<rparr>,
      handler = list_tables_handler provider\<rparr>"

definition describe_table_tool :: "'d IDatabaseProvider \<Rightarrow> 'd MCPTool" where
  "describe_table_tool provider =
     \<lparr>name = ''describe_table'',
      description = ''Get detailed information about a table structure'',
      parameters =
        \<lparr>params_type = ''object'',
         properties =
           [(''table_name'', \<lparr>prop_type = ''string'',
               prop_description = ''Name of the table to describe'', prop_items = None\<rparr>),
            (''schema'', \<lparr>prop_type = ''string'',
               prop_description = ''Schema name (optional)'', prop_items = None\<rparr>)],
         required = [''table_name'']\<rparr>,
      handler = describe_table_handler provider\<rparr>"

definition generate_sql_tool :: "'d MCPTool" where
  "generate_sql_tool =
     \<lparr>name = ''generate_sql'',
      description = ''Generate SQL query based on natural language description'',
      parameters =
        \<lparr>params_type = ''object'',
         properties =
           [(''description'', \<lparr>prop_type = ''string'',
               prop_description = ''Natural language description of what to query'',
               prop_items = None\<rparr>),
            (''tables'', \<lparr>prop_type = ''array'',
               prop_description = ''Tables involved in the query'',
               prop_items = Some ''string''\<rparr>)],
         required = [''description'']\<rparr>,
      handler = generate_sql_handler\<rparr>"

definition explain_sql_tool :: "parser \<Rightarrow> 'd MCPTool" where
  "explain_sql_tool astify =
     \<lparr>name = ''explain_sql'',
      description = ''Explain what a SQL query does in natural language'',
      parameters =
        \<lparr>params_type = ''object'',
         properties =
           [(''sql'', \<lparr>prop_type = ''string'',
               prop_description = ''SQL query to explain'', prop_items = None\<rparr>)],
         required = [''sql'']\<rparr>,
      handler = explain_sql_handler astify\<rparr>"

definition run_sql_tool :: "parser \<Rightarrow> 'd IDatabaseProvider \<Rightarrow> 'd MCPTool" where
  "run_sql_tool astify provider =
     \<lparr>name = ''run_sql'',
      description = ''Execute a SQL query and return results'',
      parameters =
        \<lparr>params_type = ''object'',
         properties =
           [(''sql'', \<lparr>prop_type = ''string'',
               prop_description = ''SQL query to execute'', prop_items = None\<rparr>),
            (''limit'', \<lparr>prop_type = ''number'',
               prop_description = ''Maximum number of rows to return (default: 1000)'',
               prop_items = None\<rparr>)],
         required = [''sql'']\<rparr>,
      handler = run_sql_handler astify provider\<rparr>"

definition registerTools :: "parser \<Rightarrow> 'd IDatabaseProvider \<Rightarrow> (string \<times> 'd MCPTool) list" where
  "registerTools astify provider =
     map_set ''run_sql'' (run_sql_tool astify provider)
      (map_set ''explain_sql'' (explain_sql_tool astify)
        (map_set ''generate_sql'' generate_sql_tool
          (map_set ''describe_table'' (describe_table_tool provider)
            (map_set ''list_tables'' (list_tables_tool provider) []))))"

text \<open>The constructor: the validator's parser, the provider and the optional metadata.\<close>

definition new_MCPToolRegistry ::
  "parser \<Rightarrow> 'd IDatabaseProvider \<Rightarrow> DatabaseMetadata option \<Rightarrow> 'd MCPToolRegistry" where
  "new_MCPToolRegistry astify provider metadata =
     \<lparr>tools = registerTools astify provider,
      reg_fields = \<lparr>readOnlyMode = True, reg_metadata = metadata\<rparr>\<rparr>"

definition registry_setMetadata :: "DatabaseMetadata \<Rightarrow> 'd MCPToolRegistry \<Rightarrow> 'd MCPToolRegistry" where
  "registry_setMetadata metadata reg = reg\<lparr>reg_fields := (reg_fields reg)\<lparr>reg_metadata := Some metadata\<rparr>\<rparr>"

definition setReadOnlyMode :: "bool \<Rightarrow> 'd MCPToolRegistry \<Rightarrow> 'd MCPToolRegistry" where
  "setReadOnlyMode readOnly reg = reg\<lparr>reg_fields := (reg_fields reg)\<lparr>readOnlyMode := readOnly\<rparr>\<rparr>"

definition getTools :: "'d MCPToolRegistry \<Rightarrow> 'd MCPTool list" where
  "getTools reg = map snd (tools reg)"

definition getTool :: "'d MCPToolRegistry \<Rightarrow> string \<Rightarrow> 'd MCPTool option" where
  "getTool reg nm = map_of (tools reg) nm"

definition executeTool ::
  "'d MCPToolRegistry \<Rightarrow> string \<Rightarrow> tool_args \<Rightarrow> 'd db_world \<Rightarrow> (string + tool_result) \<times> 'd db_world" where
  "executeTool reg nm params w =
     (case map_of (tools reg) nm of
        None \<Rightarrow> (Inl (''Tool not found: '' @ nm), w)
      | Some tool \<Rightarrow>
          (case handler tool (reg_fields reg) params w of
             (Inl message, w') \<Rightarrow> (Inl (''Tool execution failed: '' @ message), w')
           | (Inr result, w') \<Rightarrow> (Inr result, w')))"

section \<open>The chat orchestrator (src/orchestration/chat.ts)\<close>

datatype role = System | User | Assistant | Tool

record ToolCall =
  tc_id :: string
  tc_function_name :: string
  tc_function_arguments :: string

record Message =
  role :: role
  content :: string
  msg_name :: "string option"
  tool_calls :: "ToolCall list option"
  tool_call_id :: "string option"

record ChatResponse =
  response_type :: string
  response_description :: string
  response_data :: "string option"
  response_sql :: "string option"
  raw_response :: "string option"

text \<open>
  The LLM client is an external capability over a state \<open>'l\<close> of its own: from the
  history and the tool catalogue it returns the assistant's message, or the message of
  the error it throws (\<open>Inl\<close>). The orchestrator's surroundings are the database side,
  the LLM side and the number of calls made to the LLM client so far.
\<close>

type_synonym ('d, 'l) LLMClient =
  "Message list \<Rightarrow> 'd MCPTool list \<Rightarrow> 'l \<Rightarrow> (string + Message) \<times> 'l"

record ('d, 'l) world =
  database :: "'d db_world"
  llm :: 'l
  llm_calls :: nat

definition call_llm ::
  "('d, 'l) LLMClient \<Rightarrow> Message list \<Rightarrow> 'd MCPTool list \<Rightarrow> ('d, 'l) world \<Rightarrow>
     (string + Message) \<times> ('d, 'l) world" where
  "call_llm llmClient history catalogue w =
     (case llmClient history catalogue (llm w) of
        (r, l) \<Rightarrow> (r, w\<lparr>llm := l, llm_calls := Suc (llm_calls w)\<rparr>))"

text \<open>
  The built-in \<open>JSON\<close> object, as the orchestrator uses it. \<open>parse_args\<close> decodes the
  argument text of a tool call and \<open>parse_response\<close> the final answer; both may throw.
  \<open>stringify\<close> renders a tool result and may throw (a result that holds a BigInt, say).
\<close>

record response_json =
  json_response_type :: "string option"
  json_description :: "string option"
  json_data :: "string option"
  json_sql :: "string option"
  json_raw_response :: "string option"

record JSON =
  parse_args :: "string \<Rightarrow> string + tool_args"
  parse_response :: "string \<Rightarrow> string + response_json"
  stringify :: "tool_result \<Rightarrow> string + string"

text \<open>
  \<open>JSON.stringify({ error: message })\<close> is determined by the message: the object has one
  string property, so the text is \<open>{"error":\<close> followed by the quoted message and a
  closing brace. Quoting escapes the double quote, the backslash and the control
  characters, as ECMAScript's \<open>QuoteJSONString\<close> does.
\<close>

definition hex_digit :: "nat \<Rightarrow> char" where
  "hex_digit d = (if d < 10 then char_of (48 + d) else char_of (87 + d))"

definition json_escape_char :: "char \<Rightarrow> string" where
  "json_escape_char c =
     (let n = (of_char c :: nat) in
      if n = 8 then [CHR 0x5C, CHR ''b'']
      else if n = 9 then [CHR 0x5C, CHR ''t'']
      else if n = 10 then [CHR 0x5C, CHR ''n'']
      else if n = 12 then [CHR 0x5C, CHR ''f'']
      else if n = 13 then [CHR 0x5C, CHR ''r'']
      else if n = 34 then [CHR 0x5C, CHR 0x22]
      else if n = 92 then [CHR 0x5C, CHR 0x5C]
      else if n < 32
      then [CHR 0x5C, CHR ''u'', CHR ''0'', CHR ''0'', hex_digit (n div 16), hex_digit (n mod 16)]
      else [c])"

definition json_quote :: "string \<Rightarrow> string" where
  "json_quote text = [CHR 0x22] @ concat (map json_escape_char text) @ [CHR 0x22]"

definition stringify_error :: "string \<Rightarrow> string" where
  "stringify_error message =
     [CHR ''{'', CHR 0x22] @ ''error'' @ [CHR 0x22, CHR '':''] @ json_quote message @ [CHR ''}'']"

record 'd ChatOrchestrator =
  messages :: "Message list"
  systemPrompt :: string
  orch_metadata :: "DatabaseMetadata option"
  toolRegistry :: "'d MCPToolRegistry"

definition system_message :: "string \<Rightarrow> Message" where
  "system_message prompt =
     \<lparr>role = System, content = prompt, msg_name = None, tool_calls = None, tool_call_id = None\<rparr>"

definition user_message :: "string \<Rightarrow> Message" where
  "user_message text =
     \<lparr>role = User, content = text, msg_name = None, tool_calls = None, tool_call_id = None\<rparr>"

definition tool_message :: "ToolCall \<Rightarrow> string \<Rightarrow> Message" where
  "tool_message toolCall text =
     \<lparr>role = Tool, content = text, msg_name = Some (tc_function_name toolCall),
      tool_calls = None, tool_call_id = Some (tc_id toolCall)\<rparr>"

definition prompt_text :: "string \<Rightarrow> string \<Rightarrow> string" where
  \<open>prompt_text schemaContext toolList =
     join [CHR 0x0A]
      [''You are a helpful database assistant that helps users interact with their SQL database using natural language.'',
       '''',
       ''DATABASE SCHEMA:'',
       schemaContext,
       '''',
       ''CAPABILITIES:'',
       ''You have access to the following tools:'',
       toolList,
       '''',
       ''GUIDELINES:'',
       ''1. Always validate SQL before execution'',
       ''2. Use the explain_sql tool to validate queries before running them'',
       ''3. For data queries, use run_sql and format results appropriately'',
       ''4. When generating reports or analytics, respond with structured data in this format:'',
       ''   {'',
       ''     "response_type": "chart" | "table" | "text",'',
       ''     "description": "human explanation of the data",'',
       ''     "data": { ...structured data... }'',
       ''   }'',
       ''5. For charts, provide data in a format suitable for visualization (labels, values, etc.)'',
       ''6. Always be clear about what data you're returning and why'',
       ''7. If a query might return large amounts of data, suggest filtering or limiting'',
       ''8. Explain your reasoning when constructing complex queries'',
       '''',
       ''RESPONSE FORMAT:'',
       ''- For simple questions: respond with plain text'',
       ''- For data tables: use response_type "table" with rows and columns'',
       ''- For analytics/trends: use response_type "chart" with appropriate chart data'',
       '''',
       ''Remember: You are operating in a tool-calling mode. Use the provided tools to access the database.'']\<close>

definition initializeSystemPrompt :: "'d ChatOrchestrator \<Rightarrow> 'd ChatOrchestrator" where
  "initializeSystemPrompt this =
     (let schemaContext =
            (case orch_metadata this of
               Some metadata \<Rightarrow> generateCompactSchema metadata
             | None \<Rightarrow> ''No schema loaded yet.'');
          toolList =
            join [CHR 0x0A]
              (map (\<lambda>t. ''- '' @ name t @ '': '' @ description t) (getTools (toolRegistry this)));
          prompt = prompt_text schemaContext toolList
      in this\<lparr>systemPrompt := prompt, messages := [system_message prompt]\<rparr>)"

definition new_ChatOrchestrator ::
  "'d MCPToolRegistry \<Rightarrow> DatabaseMetadata option \<Rightarrow> 'd ChatOrchestrator" where
  "new_ChatOrchestrator registry metadata =
     initializeSystemPrompt
       \<lparr>messages = [], systemPrompt = '''', orch_metadata = metadata, toolRegistry = registry\<rparr>"

definition setMetadata :: "DatabaseMetadata \<Rightarrow> 'd ChatOrchestrator \<Rightarrow> 'd ChatOrchestrator" where
  "setMetadata metadata this = initializeSystemPrompt (this\<lparr>orch_metadata := Some metadata\<rparr>)"

definition clearHistory :: "'d ChatOrchestrator \<Rightarrow> 'd ChatOrchestrator" where
  "clearHistory this = initializeSystemPrompt this"

definition getHistory :: "'d ChatOrchestrator \<Rightarrow> Message list" where
  "getHistory this = messages this"

definition text_response :: "string \<Rightarrow> ChatResponse" where
  "text_response text =
     \<lparr>response_type = ''text'', response_description = text, response_data = None,
      response_sql = None, raw_response = Some text\<rparr>"

definition parseResponse :: "JSON \<Rightarrow> string \<Rightarrow> ChatResponse" where
  "parseResponse json text =
     (case parse_response json text of
        Inl message \<Rightarrow> text_response text
      | Inr j \<Rightarrow>
          if truthy (json_response_type j) \<and> truthy (json_description j)
          then \<lparr>response_type = the (json_response_type j),
                response_description = the (json_description j),
                response_data = json_data j, response_sql = json_sql j,
                raw_response = json_raw_response j\<rparr>
          else text_response text)"

text \<open>\<open>response.tool_calls && response.tool_calls.length > 0\<close>\<close>

definition has_tool_calls :: "Message \<Rightarrow> bool" where
  "has_tool_calls response =
     (case tool_calls response of None \<Rightarrow> False | Some calls \<Rightarrow> calls \<noteq> [])"

text \<open>
  The body of the loop over the tool calls of one reply: the \<open>try\<close> block decodes the
  arguments, runs the tool and renders its result; whichever of the three throws, the
  \<open>catch\<close> block turns the error's message into the tool message.
\<close>

definition run_tool_call ::
  "JSON \<Rightarrow> 'd MCPToolRegistry \<Rightarrow> ToolCall \<Rightarrow> 'd db_world \<Rightarrow> Message \<times> 'd db_world" where
  "run_tool_call json registry toolCall w =
     (case parse_args json (tc_function_arguments toolCall) of
        Inl message \<Rightarrow> (tool_message toolCall (stringify_error message), w)
      | Inr args \<Rightarrow>
          (case executeTool registry (tc_function_name toolCall) args w of
             (Inl message, w') \<Rightarrow> (tool_message toolCall (stringify_error message), w')
           | (Inr result, w') \<Rightarrow>
               (case stringify json result of
                  Inl message \<Rightarrow> (tool_message toolCall (stringify_error message), w')
                | Inr text \<Rightarrow> (tool_message toolCall text, w'))))"

fun run_tool_calls ::
  "JSON \<Rightarrow> 'd MCPToolRegistry \<Rightarrow> ToolCall list \<Rightarrow> Message list \<Rightarrow> 'd db_world \<Rightarrow>
     Message list \<times> 'd db_world" where
  "run_tool_calls json registry [] history w = (history, w)"
| "run_tool_calls json registry (toolCall # calls) history w =
     (case run_tool_call json registry toolCall w of
        (m, w') \<Rightarrow> run_tool_calls json registry calls (history @ [m]) w')"

definition maxIterations :: nat where
  "maxIterations = 5"

text \<open>
  The \<open>while\<close> loop of \<open>chat\<close>, with the counter \<open>iterations\<close> as an argument. The
  result is the response returned or the message of the error thrown, with the
  orchestrator and its surroundings as the call leaves them.
\<close>

function chat_loop ::
  "('d, 'l) LLMClient \<Rightarrow> JSON \<Rightarrow> nat \<Rightarrow> 'd ChatOrchestrator \<Rightarrow> ('d, 'l) world \<Rightarrow>
     (string + ChatResponse) \<times> 'd ChatOrchestrator \<times> ('d, 'l) world" where
  "chat_loop llmClient json iterations this w =
     (if iterations < maxIterations then
        (case call_llm llmClient (messages this) (getTools (toolRegistry this)) w of
           (Inl message, w1) \<Rightarrow> (Inl message, this, w1)
         | (Inr response, w1) \<Rightarrow>
             if has_tool_calls response then
               (case run_tool_calls json (toolRegistry this) (the (tool_calls response))
                       (messages this @ [response]) (database w1) of
                  (history, d) \<Rightarrow>
                    chat_loop llmClient json (Suc iterations)
                      (this\<lparr>messages := history\<rparr>) (w1\<lparr>database := d\<rparr>))
             else
               (Inr (parseResponse json (content response)),
                this\<lparr>messages := messages this @ [response]\<rparr>, w1))
      else (Inl ''Max iterations reached without final response'', this, w))"
  by pat_completeness auto
termination
  by (relation "measure (\<lambda>(llmClient, json, iterations, this, w). maxIterations - iterations)")
     auto

declare chat_loop.simps [simp del]

definition chat ::
  "('d, 'l) LLMClient \<Rightarrow> JSON \<Rightarrow> string \<Rightarrow> 'd ChatOrchestrator \<Rightarrow> ('d, 'l) world \<Rightarrow>
     (string + ChatResponse) \<times> 'd ChatOrchestrator \<times> ('d, 'l) world" where
  "chat llmClient json userMessage this w =
     chat_loop llmClient json 0 (this\<lparr>messages := messages this @ [user_message userMessage]\<rparr>) w"

section \<open>Sample inputs\<close>

text \<open>
  A stand-in parser that knows a handful of texts and rejects every other one; the
  theorems below are instantiated with it at concrete inputs.
\<close>

definition sample_delete :: statement where
  "sample_delete = \<lparr>stmt_type = Some ''delete'', stmt_from = Some (FromArray [\<lparr>item_table = Some ''customers'', item_as = None\<rparr>]), stmt_into = None, stmt_table = None\<rparr>"

definition sample_select :: statement where
  "sample_select = \<lparr>stmt_type = Some ''select'', stmt_from = None, stmt_into = None, stmt_table = None\<rparr>"

definition sample_drop :: statement where
  "sample_drop = \<lparr>stmt_type = Some ''drop'', stmt_from = None, stmt_into = None, stmt_table = None\<rparr>"

definition sample_astify :: parser where
  "sample_astify sql =
     (if sql = ''DELETE FROM customers'' then Inr (Single (Some sample_delete))
      else if sql = ''SELECT 1; DROP TABLE customers''
      then Inr (Multiple [Some sample_select, Some sample_drop])
      else if sql = ''DROP TABLE customers; SELECT 1''
      then Inr (Multiple [Some sample_drop, Some sample_select])
      else if sql = ''SELECT 1'' then Inr (Single (Some sample_select))
      else Inl ''Unexpected input'')"

text \<open>
  A stand-in provider over a counter of the queries run: it lists one table, knows no
  table description and answers every query with an empty result.
\<close>

definition sample_provider :: "nat IDatabaseProvider" where
  "sample_provider =
     \<lparr>listTables = (\<lambda>sch d. (Inr [''customers''], d)),
      describeTable = (\<lambda>t sch d. (Inl ''no such table'', d)),
      runQuery = (\<lambda>sql d. (Inr \<lparr>rows = [], rowCount = 0, result_fields = None\<rparr>, Suc d))\<rparr>"

definition sample_args :: "string \<Rightarrow> tool_args" where
  "sample_args sql =
     \<lparr>arg_schema = None, arg_table_name = '''', arg_description = '''', arg_tables = None,
      arg_sql = sql, arg_limit = None\<rparr>"

definition sample_db :: "nat db_world" where
  "sample_db = \<lparr>db = 0, db_trace = []\<rparr>"

text \<open>
  A stand-in LLM client that asks in every reply for \<open>run_sql\<close> with a DELETE as its
  argument text, a stand-in \<open>JSON\<close> that decodes that one text and rejects every other,
  and an orchestrator over a fresh registry.
\<close>

definition sample_arguments :: string where
  \<open>sample_arguments = ''{"sql":"DELETE FROM customers"}''\<close>

definition sample_tool_call :: ToolCall where
  "sample_tool_call =
     \<lparr>tc_id = ''call_1'', tc_function_name = ''run_sql'',
      tc_function_arguments = sample_arguments\<rparr>"

definition sample_llm :: "(nat, nat) LLMClient" where
  "sample_llm history catalogue l =
     (Inr \<lparr>role = Assistant, content = '''', msg_name = None,
           tool_calls = Some [sample_tool_call], tool_call_id = None\<rparr>, Suc l)"

definition sample_json :: JSON where
  "sample_json =
     \<lparr>parse_args =
        (\<lambda>text. if text = sample_arguments then Inr (sample_args ''DELETE FROM customers'')
                else Inl ''Unexpected end of JSON input''),
      parse_response = (\<lambda>text. Inl ''Unexpected end of JSON input''),
      stringify = (\<lambda>result. Inr ''{}'')\<rparr>"

definition sample_registry :: "nat MCPToolRegistry" where
  "sample_registry = new_MCPToolRegistry sample_astify sample_provider None"

definition sample_orchestrator :: "nat ChatOrchestrator" where
  "sample_orchestrator = new_ChatOrchestrator sample_registry None"

definition sample_world :: "(nat, nat) world" where
  "sample_world = \<lparr>database = sample_db, llm = 0, llm_calls = 0\<rparr>"

section \<open>The matcher computes the meaning of a pattern\<close>

lemma ex_single_split:
  "(\<exists>u v. s = u @ v \<and> (\<exists>c. u = [c] \<and> P c) \<and> Q v) = (\<exists>c v. s = c # v \<and> P c \<and> Q v)"
proof
  assume "\<exists>u v. s = u @ v \<and> (\<exists>c. u = [c] \<and> P c) \<and> Q v"
  then obtain u v c where "s = u @ v" "u = [c]" "P c" "Q v" by blast
  then have "s = c # v \<and> P c \<and> Q v" by simp
  then show "\<exists>c v. s = c # v \<and> P c \<and> Q v" by blast
next
  assume "\<exists>c v. s = c # v \<and> P c \<and> Q v"
  then obtain c v where "s = c # v" "P c" "Q v" by blast
  then have "s = [c] @ v \<and> (\<exists>d. [c] = [d] \<and> P d) \<and> Q v" by simp
  then show "\<exists>u v. s = u @ v \<and> (\<exists>c. u = [c] \<and> P c) \<and> Q v" by blast
qed

lemma matchk_Star:
  "matchk (Star a) s k = (\<exists>u v. s = u @ v \<and> list_all (atom_match a) u \<and> k v)"
proof (induction s)
  case Nil
  then show ?case by simp
next
  case (Cons c cs)
  show ?case
  proof
    assume "matchk (Star a) (c # cs) k"
    then consider "atom_match a c" "matchk (Star a) cs k" | "k (c # cs)" by auto
    then show "\<exists>u v. c # cs = u @ v \<and> list_all (atom_match a) u \<and> k v"
    proof cases
      case 1
      with Cons.IH obtain u v where "cs = u @ v" "list_all (atom_match a) u" "k v" by auto
      with 1 have "c # cs = (c # u) @ v \<and> list_all (atom_match a) (c # u) \<and> k v" by simp
      then show ?thesis by blast
    next
      case 2
      then have "c # cs = [] @ (c # cs) \<and> list_all (atom_match a) [] \<and> k (c # cs)" by simp
      then show ?thesis by blast
    qed
  next
    assume "\<exists>u v. c # cs = u @ v \<and> list_all (atom_match a) u \<and> k v"
    then obtain u v where uv: "c # cs = u @ v" "list_all (atom_match a) u" "k v" by blast
    show "matchk (Star a) (c # cs) k"
    proof (cases u)
      case Nil
      with uv have "k (c # cs)" by simp
      then show ?thesis by simp
    next
      case (Cons d ds)
      with uv have "d = c" "cs = ds @ v" "atom_match a c" "list_all (atom_match a) ds" by auto
      with uv(3) Cons.IH show ?thesis by auto
    qed
  qed
qed

lemma matchk_sem:
  "matchk r s k = (\<exists>u v. s = u @ v \<and> sem r u v \<and> k v)"
proof (induction r arbitrary: s k)
  case Eps
  then show ?case by simp
next
  case (Atom a)
  then show ?case by (cases s) (auto simp: ex_single_split)
next
  case (Star a)
  then show ?case by (simp add: matchk_Star)
next
  case (Plus a)
  show ?case
  proof (cases s)
    case Nil
    then show ?thesis by simp
  next
    case (Cons c cs)
    show ?thesis
    proof
      assume "matchk (Plus a) s k"
      with Cons have "atom_match a c" "matchk (Star a) cs k" by auto
      then obtain u v where "cs = u @ v" "list_all (atom_match a) u" "k v"
        by (auto simp: matchk_Star)
      with \<open>atom_match a c\<close> Cons
      have "s = (c # u) @ v \<and> sem (Plus a) (c # u) v \<and> k v" by simp
      then show "\<exists>u v. s = u @ v \<and> sem (Plus a) u v \<and> k v" by blast
    next
      assume "\<exists>u v. s = u @ v \<and> sem (Plus a) u v \<and> k v"
      then obtain u v where uv: "s = u @ v" "u \<noteq> []" "list_all (atom_match a) u" "k v" by auto
      then obtain d ds where u: "u = d # ds" by (cases u) auto
      with uv Cons have "d = c" "cs = ds @ v" "atom_match a c" "list_all (atom_match a) ds" by auto
      with uv(4) have "matchk (Star a) cs k" by (auto simp: matchk_Star)
      with \<open>atom_match a c\<close> Cons show "matchk (Plus a) s k" by simp
    qed
  qed
next
  case (Opt a)
  show ?case
  proof (cases s)
    case Nil
    then show ?thesis by simp
  next
    case (Cons c cs)
    show ?thesis
    proof
      assume "matchk (Opt a) s k"
      with Cons consider "atom_match a c" "k cs" | "k (c # cs)" by auto
      then show "\<exists>u v. s = u @ v \<and> sem (Opt a) u v \<and> k v"
      proof cases
        case 1
        with Cons have "s = [c] @ cs \<and> sem (Opt a) [c] cs \<and> k cs" by simp
        then show ?thesis by blast
      next
        case 2
        with Cons have "s = [] @ s \<and> sem (Opt a) [] s \<and> k s" by simp
        then show ?thesis by blast
      qed
    next
      assume "\<exists>u v. s = u @ v \<and> sem (Opt a) u v \<and> k v"
      then obtain u v where uv: "s = u @ v" "sem (Opt a) u v" "k v" by blast
      then consider "u = []" | d where "u = [d]" "atom_match a d" by auto
      then show "matchk (Opt a) s k"
      proof cases
        case 1
        with uv Cons have "k (c # cs)" by simp
        with Cons show ?thesis by simp
      next
        case 2
        with uv Cons have "d = c" "v = cs" by auto
        with 2 uv(3) Cons show ?thesis by simp
      qed
    qed
  qed
next
  case (Seq r1 r2)
  show ?case
  proof
    assume "matchk (Seq r1 r2) s k"
    then obtain u1 w where 1: "s = u1 @ w" "sem r1 u1 w" "matchk r2 w k"
      using Seq.IH(1) by auto
    then obtain u2 v where 2: "w = u2 @ v" "sem r2 u2 v" "k v"
      using Seq.IH(2) by auto
    with 1 have "s = (u1 @ u2) @ v \<and> sem (Seq r1 r2) (u1 @ u2) v \<and> k v" by auto
    then show "\<exists>u v. s = u @ v \<and> sem (Seq r1 r2) u v \<and> k v" by blast
  next
    assume "\<exists>u v. s = u @ v \<and> sem (Seq r1 r2) u v \<and> k v"
    then obtain u1 u2 v where "s = u1 @ (u2 @ v)" "sem r1 u1 (u2 @ v)" "sem r2 u2 v" "k v"
      by auto
    then show "matchk (Seq r1 r2) s k"
      using Seq.IH(1) [of s] Seq.IH(2) [of "u2 @ v" k] by auto
  qed
next
  case (Alt r1 r2)
  then show ?case by auto
next
  case EndOfInput
  then show ?case by auto
qed

lemma regex_test_at_start_sem:
  "regex_test_at_start r s = (\<exists>u v. s = u @ v \<and> sem r u v)"
  by (simp add: regex_test_at_start_def matchk_sem)

lemma regex_test_sem:
  "regex_test r s = (\<exists>p u v. s = p @ u @ v \<and> sem r u v)"
proof (induction s)
  case Nil
  then show ?case by (simp add: matchk_sem)
next
  case (Cons c cs)
  show ?case
  proof
    assume "regex_test r (c # cs)"
    then consider "matchk r (c # cs) (\<lambda>_. True)" | "regex_test r cs" by auto
    then show "\<exists>p u v. c # cs = p @ u @ v \<and> sem r u v"
    proof cases
      case 1
      then obtain u v where "c # cs = [] @ u @ v \<and> sem r u v" by (auto simp: matchk_sem)
      then show ?thesis by blast
    next
      case 2
      with Cons.IH obtain p u v where "cs = p @ u @ v" "sem r u v" by auto
      then have "c # cs = (c # p) @ u @ v \<and> sem r u v" by simp
      then show ?thesis by blast
    qed
  next
    assume "\<exists>p u v. c # cs = p @ u @ v \<and> sem r u v"
    then obtain p u v where puv: "c # cs = p @ u @ v" "sem r u v" by blast
    show "regex_test r (c # cs)"
    proof (cases p)
      case Nil
      with puv have "\<exists>u v. c # cs = u @ v \<and> sem r u v \<and> True" by auto
      then have "matchk r (c # cs) (\<lambda>_. True)" by (simp only: matchk_sem)
      then show ?thesis by simp
    next
      case (Cons d ds)
      with puv have "cs = ds @ u @ v" by simp
      with puv(2) Cons.IH show ?thesis by auto
    qed
  qed
qed

lemma sem_lit: "sem (lit w) u v = ci_equal w u"
proof (induction w arbitrary: u rule: lit.induct)
  case 1
  then show ?case by (auto simp: ci_equal_def)
next
  case (2 c)
  then show ?case by (auto simp: ci_equal_def)
next
  case (3 c d ds)
  show ?case
  proof (cases u)
    case Nil
    then show ?thesis by (simp add: ci_equal_def)
  next
    case (Cons x xs)
    have "sem (lit (c # d # ds)) u v =
          (\<exists>u1 u2. u = u1 @ u2 \<and> (\<exists>y. u1 = [y] \<and> canonicalize c = canonicalize y) \<and> ci_equal (d # ds) u2)"
      using 3 by simp
    also have "\<dots> = (canonicalize c = canonicalize x \<and> ci_equal (d # ds) xs)"
      using Cons by (simp add: ex_single_split)
    also have "\<dots> = ci_equal (c # d # ds) u"
      using Cons by (auto simp: ci_equal_def)
    finally show ?thesis .
  qed
qed

lemma ci_equal_length: "ci_equal a b \<Longrightarrow> length a = length b"
  unfolding ci_equal_def by (metis length_map)

lemma ci_starts_with_iff: "ci_starts_with w t = (\<exists>u v. t = u @ v \<and> ci_equal w u)"
proof
  assume "ci_starts_with w t"
  then have "t = take (length w) t @ drop (length w) t \<and> ci_equal w (take (length w) t)"
    by (simp add: ci_starts_with_def)
  then show "\<exists>u v. t = u @ v \<and> ci_equal w u" by blast
next
  assume "\<exists>u v. t = u @ v \<and> ci_equal w u"
  then obtain u v where "t = u @ v" "ci_equal w u" by blast
  then show "ci_starts_with w t"
    using ci_equal_length [of w u] by (simp add: ci_starts_with_def)
qed

lemma canonicalize_semicolon: "(canonicalize (CHR '';'') = canonicalize c) = (c = CHR '';'')"
proof -
  have "canonicalize (CHR '';'') = CHR '';''" by (simp add: canonicalize_def)
  moreover have "(CHR '';'' = canonicalize c) = (c = CHR '';'')"
  proof (cases "97 \<le> (of_char c :: nat) \<and> (of_char c :: nat) \<le> 122")
    case True
    then have "(of_char c - 32 :: nat) mod 256 = of_char c - 32"
      by (intro mod_less) arith
    with True have "(of_char (canonicalize c) :: nat) = of_char c - 32"
      by (simp add: canonicalize_def Let_def)
    with True have ne: "(of_char (canonicalize c) :: nat) \<noteq> 59" "(of_char c :: nat) \<noteq> 59"
      by auto
    have "CHR '';'' \<noteq> canonicalize c"
    proof
      assume "CHR '';'' = canonicalize c"
      then have "(of_char (canonicalize c) :: nat) = of_char (CHR '';'')" by simp
      with ne(1) show False by simp
    qed
    moreover have "c \<noteq> CHR '';''"
    proof
      assume "c = CHR '';''"
      then have "(of_char c :: nat) = of_char (CHR '';'')" by simp
      with ne(2) show False by simp
    qed
    ultimately show ?thesis by simp
  next
    case False
    then show ?thesis by (auto simp: canonicalize_def Let_def)
  qed
  ultimately show ?thesis by simp
qed

lemma sem_SeqI: "sem r1 u1 (u2 @ v) \<Longrightarrow> sem r2 u2 v \<Longrightarrow> sem (Seq r1 r2) (u1 @ u2) v"
  by auto

lemma atom_match_Space: "atom_match Space = is_space" by (rule ext) simp
lemma atom_match_Word: "atom_match Word = is_word" by (rule ext) simp
lemma atom_match_Digit: "atom_match Digit = is_digit" by (rule ext) simp

lemma sem_delete_from_pattern: "sem delete_from_pattern u v = (v = [] \<and> delete_statement_tail u)"
proof
  assume "sem delete_from_pattern u v"
  then obtain kw1 ws1 kw2 ws2 ident ws3 semi ws4 e where
    "u = kw1 @ ws1 @ kw2 @ ws2 @ ident @ ws3 @ semi @ ws4 @ e"
    "ci_equal ''DELETE'' kw1" "ws1 \<noteq> []" "list_all is_space ws1"
    "ci_equal ''FROM'' kw2" "ws2 \<noteq> []" "list_all is_space ws2"
    "ident \<noteq> []" "list_all is_word ident" "list_all is_space ws3"
    "semi = [] \<or> semi = '';''" "list_all is_space ws4" "e = []" "v = []"
    unfolding delete_from_pattern_def seqs.simps sem.simps sem_lit
      atom_match_Space atom_match_Word atom_match.simps canonicalize_semicolon
    by blast
  then have "v = [] \<and> u = kw1 @ ws1 @ kw2 @ ws2 @ ident @ ws3 @ semi @ ws4 \<and>
    ci_equal ''DELETE'' kw1 \<and> ws1 \<noteq> [] \<and> list_all is_space ws1 \<and>
    ci_equal ''FROM'' kw2 \<and> ws2 \<noteq> [] \<and> list_all is_space ws2 \<and>
    ident \<noteq> [] \<and> list_all is_word ident \<and> list_all is_space ws3 \<and>
    (semi = [] \<or> semi = '';'') \<and> list_all is_space ws4" by simp
  then show "v = [] \<and> delete_statement_tail u"
    unfolding delete_statement_tail_def by blast
next
  assume "v = [] \<and> delete_statement_tail u"
  then obtain kw1 ws1 kw2 ws2 ident ws3 semi ws4 where
    "u = kw1 @ ws1 @ kw2 @ ws2 @ ident @ ws3 @ semi @ ws4"
    "ci_equal ''DELETE'' kw1" "ws1 \<noteq> []" "list_all is_space ws1"
    "ci_equal ''FROM'' kw2" "ws2 \<noteq> []" "list_all is_space ws2"
    "ident \<noteq> []" "list_all is_word ident" "list_all is_space ws3"
    "semi = [] \<or> semi = '';''" "list_all is_space ws4" "v = []"
    unfolding delete_statement_tail_def by blast
  then have
    "u = kw1 @ ws1 @ kw2 @ ws2 @ ident @ ws3 @ semi @ ws4 @ []"
    "ci_equal ''DELETE'' kw1" "ws1 \<noteq> []" "list_all is_space ws1"
    "ci_equal ''FROM'' kw2" "ws2 \<noteq> []" "list_all is_space ws2"
    "ident \<noteq> []" "list_all is_word ident" "list_all is_space ws3"
    "semi = [] \<or> semi = '';''" "list_all is_space ws4" "v = []"
    by simp_all
  then show "sem delete_from_pattern u v"
    unfolding delete_from_pattern_def seqs.simps
    by (elim ssubst, intro sem_SeqI)
       (simp_all add: sem_lit canonicalize_semicolon atom_match_Space atom_match_Word
          del: lit.simps)
qed

lemma sem_dangerous:
  "sem dangerous_pattern u v =
     (\<exists>ws t. u = '';'' @ ws @ t \<and> list_all is_space ws \<and>
        (ci_equal ''DROP'' t \<or> ci_equal ''TRUNCATE'' t \<or> (v = [] \<and> delete_statement_tail t)))"
  unfolding dangerous_pattern_def seqs.simps sem.simps sem_lit sem_delete_from_pattern
    atom_match_Space atom_match.simps canonicalize_semicolon
  by (simp add: ex_single_split del: lit.simps) blast

lemma regex_test_dangerous:
  "regex_test dangerous_pattern sql = stacked_statement_pattern sql"
proof
  assume "regex_test dangerous_pattern sql"
  then obtain p ws t v where sql: "sql = p @ ('';'' @ ws @ t) @ v" and ws: "list_all is_space ws"
    and alt: "ci_equal ''DROP'' t \<or> ci_equal ''TRUNCATE'' t \<or> (v = [] \<and> delete_statement_tail t)"
    unfolding regex_test_sem sem_dangerous by blast
  from alt have "ci_starts_with ''DROP'' (t @ v) \<or> ci_starts_with ''TRUNCATE'' (t @ v) \<or>
         delete_statement_tail (t @ v)"
    unfolding ci_starts_with_iff by auto
  with sql ws have "sql = p @ '';'' @ ws @ (t @ v) \<and> list_all is_space ws \<and>
     (ci_starts_with ''DROP'' (t @ v) \<or> ci_starts_with ''TRUNCATE'' (t @ v) \<or>
         delete_statement_tail (t @ v))" by simp
  then show "stacked_statement_pattern sql"
    unfolding stacked_statement_pattern_def by blast
next
  assume "stacked_statement_pattern sql"
  then obtain pre ws rest where sql: "sql = pre @ '';'' @ ws @ rest" and ws: "list_all is_space ws"
    and alt: "ci_starts_with ''DROP'' rest \<or> ci_starts_with ''TRUNCATE'' rest \<or>
         delete_statement_tail rest"
    unfolding stacked_statement_pattern_def by blast
  from alt obtain t v where "rest = t @ v"
    "ci_equal ''DROP'' t \<or> ci_equal ''TRUNCATE'' t \<or> (v = [] \<and> delete_statement_tail t)"
    unfolding ci_starts_with_iff by (metis append_Nil2)
  with sql ws have "sql = pre @ ('';'' @ ws @ t) @ v \<and> sem dangerous_pattern ('';'' @ ws @ t) v"
    unfolding sem_dangerous by auto
  then show "regex_test dangerous_pattern sql"
    unfolding regex_test_sem by blast
qed

lemma sem_limit:
  "sem limit_pattern u v =
     (\<exists>kw ws ds. u = kw @ ws @ ds \<and> ci_equal ''LIMIT'' kw \<and>
        ws \<noteq> [] \<and> list_all is_space ws \<and> ds \<noteq> [] \<and> list_all is_digit ds)"
  unfolding limit_pattern_def seqs.simps sem.simps sem_lit atom_match_Space atom_match_Digit
  by blast

lemma regex_test_limit: "regex_test limit_pattern t = contains_limit_clause t"
proof
  assume "regex_test limit_pattern t"
  then obtain p kw ws ds v where "t = p @ (kw @ ws @ ds) @ v" "ci_equal ''LIMIT'' kw"
        "ws \<noteq> []" "list_all is_space ws" "ds \<noteq> []" "list_all is_digit ds"
    unfolding regex_test_sem sem_limit by blast
  then have "t = p @ kw @ ws @ ds @ v \<and> ci_equal ''LIMIT'' kw \<and>
        ws \<noteq> [] \<and> list_all is_space ws \<and> ds \<noteq> [] \<and> list_all is_digit ds" by simp
  then show "contains_limit_clause t" unfolding contains_limit_clause_def by blast
next
  assume "contains_limit_clause t"
  then obtain p kw ws ds v where "t = p @ kw @ ws @ ds @ v" "ci_equal ''LIMIT'' kw"
        "ws \<noteq> []" "list_all is_space ws" "ds \<noteq> []" "list_all is_digit ds"
    unfolding contains_limit_clause_def by blast
  then have "t = p @ (kw @ ws @ ds) @ v \<and> sem limit_pattern (kw @ ws @ ds) v"
    unfolding sem_limit by auto
  then show "regex_test limit_pattern t" unfolding regex_test_sem by blast
qed

lemma regex_test_select: "regex_test_at_start select_pattern t = ci_starts_with ''SELECT'' t"
  unfolding regex_test_at_start_sem select_pattern_def sem_lit ci_starts_with_iff ..

section \<open>Properties of the SQL validator\<close>

lemma analyzeStatement_type:
  "type (analyzeStatement stmt r) = (case statement_kind stmt of None \<Rightarrow> type r | Some k \<Rightarrow> k)"
  by (simp add: analyzeStatement_def statement_kind_def Let_def split: option.splits)

lemma analyzeStatement_isReadOnly:
  "isReadOnly (analyzeStatement stmt r) =
     (isReadOnly r \<and> \<not> (\<exists>k. statement_kind stmt = Some k \<and> k \<in> set writeOperations))"
  by (simp add: analyzeStatement_def statement_kind_def Let_def split: option.splits)

lemma analyzeStatement_warnings: "warnings (analyzeStatement stmt r) = warnings r"
  by (simp add: analyzeStatement_def Let_def split: option.splits)

lemma analyzeStatement_isValid: "isValid (analyzeStatement stmt r) = isValid r"
  by (simp add: analyzeStatement_def Let_def split: option.splits)

lemma analyzeStatement_errors: "errors (analyzeStatement stmt r) = errors r"
  by (simp add: analyzeStatement_def Let_def split: option.splits)

lemma analyzeStatements_type:
  "type (analyzeStatements stmts r) =
     (case rev (List.map_filter statement_kind stmts) of [] \<Rightarrow> type r | k # _ \<Rightarrow> k)"
proof (induction stmts arbitrary: r)
  case Nil
  then show ?case by (simp add: List.map_filter_simps)
next
  case (Cons s stmts)
  then show ?case
    by (cases "statement_kind s")
       (auto simp: List.map_filter_simps analyzeStatement_type split: list.splits)
qed

lemma analyzeStatements_isReadOnly:
  "isReadOnly (analyzeStatements stmts r) =
     (isReadOnly r \<and>
      \<not> (\<exists>s \<in> set stmts. \<exists>k. statement_kind s = Some k \<and> k \<in> set writeOperations))"
  by (induction stmts arbitrary: r) (auto simp: analyzeStatement_isReadOnly)

lemma analyzeStatements_warnings: "warnings (analyzeStatements stmts r) = warnings r"
  by (induction stmts arbitrary: r) (simp_all add: analyzeStatement_warnings)

lemma analyzeStatements_isValid: "isValid (analyzeStatements stmts r) = isValid r"
  by (induction stmts arbitrary: r) (simp_all add: analyzeStatement_isValid)

lemma analyzeStatements_errors: "errors (analyzeStatements stmts r) = errors r"
  by (induction stmts arbitrary: r) (simp_all add: analyzeStatement_errors)

lemma map_filter_append:
  "List.map_filter f (xs @ ys) = List.map_filter f xs @ List.map_filter f ys"
  by (simp add: List.map_filter_def)

lemma map_filter_last:
  assumes "stmts \<noteq> []" and "f (last stmts) = Some k"
  shows "rev (List.map_filter f stmts) = k # rev (List.map_filter f (butlast stmts))"
proof -
  have "List.map_filter f stmts = List.map_filter f (butlast stmts @ [last stmts])"
    using assms(1) by simp
  also have "\<dots> = List.map_filter f (butlast stmts) @ [k]"
    using assms(2) by (simp only: map_filter_append) simp
  finally show ?thesis by simp
qed

text \<open>
  Claim C5. \<open>analyze\<close> is a total function into \<open>SQLAnalysis\<close>: the one step of its
  body that can throw, the call of the parser, is caught and becomes data. When the parser
  fails, the result is invalid, carries the parse error as its only error, and keeps the
  defaults: read-only, type \<open>unknown\<close>, no tables, no warnings.
\<close>

theorem analyze_parse_failure:
  assumes "astify sql = Inl message"
  shows "analyze astify sql =
     \<lparr>isValid = False, isReadOnly = True, type = ''unknown'', tables = [],
      errors = [''Parse error: '' @ message], warnings = []\<rparr>"
  using assms by (simp add: analyze_def initial_analysis_def)

text \<open>
  The stand-in parser rejects \<open>SELEC 1\<close>; the analysis records that.
\<close>

theorem analyze_parse_failure_witness:
  "analyze sample_astify ''SELEC 1'' =
     \<lparr>isValid = False, isReadOnly = True, type = ''unknown'', tables = [],
      errors = [''Parse error: Unexpected input''], warnings = []\<rparr>"
proof -
  have "sample_astify ''SELEC 1'' = Inl ''Unexpected input''" by (simp add: sample_astify_def)
  from analyze_parse_failure [of sample_astify "''SELEC 1''", OF this] show ?thesis by simp
qed

text \<open>
  Claim C6. When the text parses into an array of statements, \<open>analyze\<close> records the
  warning \<open>Multiple statements detected\<close> and runs \<open>analyzeStatement\<close> over the
  statements in array order. The resulting type is the lowercase kind of the last
  statement that carries a kind (the guard of \<open>analyzeStatement\<close> skips a statement without
  one), and \<open>unknown\<close> when there is none; in particular it is the kind of the last
  statement of the array whenever that statement has a kind.
\<close>

theorem analyze_multiple_statements:
  assumes "astify sql = Inr (Multiple stmts)"
  shows "warnings (analyze astify sql) = [''Multiple statements detected''] \<and>
         analyze astify sql =
           analyzeStatements stmts
             (initial_analysis\<lparr>isValid := True, warnings := [''Multiple statements detected'']\<rparr>) \<and>
         type (analyze astify sql) =
           (case rev (List.map_filter statement_kind stmts) of [] \<Rightarrow> ''unknown'' | k # _ \<Rightarrow> k) \<and>
         (\<forall>k. stmts \<noteq> [] \<and> statement_kind (last stmts) = Some k \<longrightarrow> type (analyze astify sql) = k)"
proof -
  have eq: "analyze astify sql =
           analyzeStatements stmts
             (initial_analysis\<lparr>isValid := True, warnings := [''Multiple statements detected'']\<rparr>)"
    using assms by (simp add: analyze_def initial_analysis_def)
  have w: "warnings (analyze astify sql) = [''Multiple statements detected'']"
    by (simp add: eq analyzeStatements_warnings)
  have t: "type (analyze astify sql) =
           (case rev (List.map_filter statement_kind stmts) of [] \<Rightarrow> ''unknown'' | k # _ \<Rightarrow> k)"
    by (simp add: eq analyzeStatements_type initial_analysis_def split: list.splits)
  have "type (analyze astify sql) = k" if "stmts \<noteq> []" "statement_kind (last stmts) = Some k" for k
    using map_filter_last [of stmts statement_kind k] that t by simp
  with eq w t show ?thesis by blast
qed

text \<open>
  A SELECT followed by a DROP is classified as \<open>drop\<close>.
\<close>

theorem analyze_multiple_statements_witness:
  "type (analyze sample_astify ''SELECT 1; DROP TABLE customers'') = ''drop'' \<and>
   warnings (analyze sample_astify ''SELECT 1; DROP TABLE customers'') = [''Multiple statements detected'']"
proof -
  have p: "sample_astify ''SELECT 1; DROP TABLE customers'' = Inr (Multiple [Some sample_select, Some sample_drop])"
    by (simp add: sample_astify_def)
  have k: "statement_kind (last [Some sample_select, Some sample_drop]) = Some ''drop''"
    by (simp add: statement_kind_def sample_drop_def toLowerCase_def char_toLowerCase_def)
  have ne: "[Some sample_select, Some sample_drop] \<noteq> []" by simp
  note th = analyze_multiple_statements [of sample_astify "''SELECT 1; DROP TABLE customers''", OF p]
  from th ne k have "type (analyze sample_astify ''SELECT 1; DROP TABLE customers'') = ''drop''"
    by blast
  moreover from th
  have "warnings (analyze sample_astify ''SELECT 1; DROP TABLE customers'') = [''Multiple statements detected'']"
    by blast
  ultimately show ?thesis by blast
qed

text \<open>
  Claim C10. When the text parses into an array of statements, the analysis is read-only
  exactly when no statement has a kind in the write set: one write statement anywhere
  lowers the flag, and no later statement raises it again.
\<close>

theorem analyze_write_statement_anywhere:
  assumes "astify sql = Inr (Multiple stmts)"
  shows "isReadOnly (analyze astify sql) =
           (\<not> (\<exists>s \<in> set stmts. \<exists>k. statement_kind s = Some k \<and> k \<in> set writeOperations)) \<and>
         (\<forall>s r. \<not> isReadOnly r \<longrightarrow> \<not> isReadOnly (analyzeStatement s r)) \<and>
         set writeOperations =
           {''insert'', ''update'', ''delete'', ''create'', ''drop'', ''alter'', ''truncate''}"
proof -
  have "analyze astify sql =
           analyzeStatements stmts
             (initial_analysis\<lparr>isValid := True, warnings := [''Multiple statements detected'']\<rparr>)"
    using assms by (simp add: analyze_def initial_analysis_def)
  then have "isReadOnly (analyze astify sql) =
           (\<not> (\<exists>s \<in> set stmts. \<exists>k. statement_kind s = Some k \<and> k \<in> set writeOperations))"
    by (simp add: analyzeStatements_isReadOnly initial_analysis_def)
  moreover have "\<forall>s r. \<not> isReadOnly r \<longrightarrow> \<not> isReadOnly (analyzeStatement s r)"
    by (simp add: analyzeStatement_isReadOnly)
  moreover have "set writeOperations =
           {''insert'', ''update'', ''delete'', ''create'', ''drop'', ''alter'', ''truncate''}"
    by (simp add: writeOperations_def)
  ultimately show ?thesis by blast
qed

text \<open>
  A DROP followed by a SELECT: the type is \<open>select\<close>, yet the analysis is not read-only.
\<close>

theorem analyze_write_statement_anywhere_witness:
  "isReadOnly (analyze sample_astify ''DROP TABLE customers; SELECT 1'') = False \<and>
   type (analyze sample_astify ''DROP TABLE customers; SELECT 1'') = ''select''"
proof -
  have p: "sample_astify ''DROP TABLE customers; SELECT 1'' = Inr (Multiple [Some sample_drop, Some sample_select])"
    by (simp add: sample_astify_def)
  have k: "statement_kind (Some sample_drop) = Some ''drop''"
    by (simp add: statement_kind_def sample_drop_def toLowerCase_def char_toLowerCase_def)
  have "\<exists>s \<in> set [Some sample_drop, Some sample_select]. \<exists>k. statement_kind s = Some k \<and> k \<in> set writeOperations"
    using k by (simp add: writeOperations_def)
  with analyze_write_statement_anywhere [of sample_astify "''DROP TABLE customers; SELECT 1''", OF p]
  have "isReadOnly (analyze sample_astify ''DROP TABLE customers; SELECT 1'') = False" by blast
  moreover have "type (analyze sample_astify ''DROP TABLE customers; SELECT 1'') = ''select''"
    by (simp add: analyze_def p initial_analysis_def analyzeStatement_type statement_kind_def
         sample_select_def toLowerCase_def char_toLowerCase_def)
  ultimately show ?thesis by simp
qed

lemma analyze_isValid: "isValid (analyze astify sql) = (\<exists>tree. astify sql = Inr tree)"
  by (cases "astify sql")
     (auto simp: analyze_def initial_analysis_def Let_def analyzeStatements_isValid
        analyzeStatement_isValid split: ast.splits)

lemma analyze_single_isReadOnly:
  "astify sql = Inr (Single stmt) \<Longrightarrow>
   isReadOnly (analyze astify sql) =
     (\<not> (\<exists>k. statement_kind stmt = Some k \<and> k \<in> set writeOperations))"
  by (simp add: analyze_def initial_analysis_def analyzeStatement_isReadOnly)

lemma stacked_example: "stacked_statement_pattern ''SELECT 1; DROP TABLE customers''"
  unfolding regex_test_dangerous [symmetric] by code_simp

lemma not_stacked_example: "\<not> stacked_statement_pattern ''DELETE FROM customers''"
  unfolding regex_test_dangerous [symmetric] by code_simp

lemma validateSafe_unfold:
  "validateSafe astify sql mode =
     (if \<not> isValid (analyze astify sql)
      then \<lparr>safe = False, reason = Some (join ''; '' (errors (analyze astify sql)))\<rparr>
      else if mode \<and> \<not> isReadOnly (analyze astify sql)
      then \<lparr>safe = False, reason = Some ''Write operations not allowed in read-only mode''\<rparr>
      else if stacked_statement_pattern sql
      then \<lparr>safe = False, reason = Some ''Potentially dangerous operation detected''\<rparr>
      else \<lparr>safe = True, reason = None\<rparr>)"
  by (simp add: validateSafe_def Let_def regex_test_dangerous)

lemma validateSafe_unsafe_iff:
  "(\<not> safe (validateSafe astify sql mode)) =
     (\<not> isValid (analyze astify sql) \<or> (mode \<and> \<not> isReadOnly (analyze astify sql)) \<or>
      stacked_statement_pattern sql)"
  by (simp add: validateSafe_unfold)

lemma sample_delete_refused:
  "validateSafe sample_astify ''DELETE FROM customers'' True =
      \<lparr>safe = False, reason = Some ''Write operations not allowed in read-only mode''\<rparr>"
  by (simp add: validateSafe_def analyze_def sample_astify_def initial_analysis_def
        sample_delete_def analyzeStatement_def toLowerCase_def char_toLowerCase_def
        writeOperations_def Let_def)

text \<open>
  Claim C2 as stated fails in one detail, the text of the read-only reason: for a DELETE
  in read-only mode the reason is \<open>Write operations not allowed in read-only mode\<close>,
  not \<open>write operations not allowed\<close>.
\<close>

theorem validateSafe_read_only_reason:
  "reason (validateSafe sample_astify ''DELETE FROM customers'' True) =
     Some ''Write operations not allowed in read-only mode'' \<and>
   reason (validateSafe sample_astify ''DELETE FROM customers'' True) \<noteq>
     Some ''write operations not allowed''"
  by (simp add: sample_delete_refused)

text \<open>
  Claim C2, amended. \<open>validateSafe\<close> reports unsafe exactly when the analysis is
  invalid, or the mode is read-only and the analysis is not, or the text matches the
  stacked-statement pattern; the reason is, in that order of precedence, the parse errors
  joined by \<open>"; "\<close>, \<open>Write operations not allowed in read-only mode\<close>, or
  \<open>Potentially dangerous operation detected\<close>. The text
  \<open>SELECT 1; DROP TABLE customers\<close> is unsafe in both modes whatever the parser says,
  and \<open>DELETE FROM customers\<close>, which the parser classifies as a delete, is safe
  outside read-only mode and unsafe inside it.
\<close>

theorem validateSafe_cases:
  "validateSafe astify sql mode =
     (if \<not> isValid (analyze astify sql)
      then \<lparr>safe = False, reason = Some (join ''; '' (errors (analyze astify sql)))\<rparr>
      else if mode \<and> \<not> isReadOnly (analyze astify sql)
      then \<lparr>safe = False, reason = Some ''Write operations not allowed in read-only mode''\<rparr>
      else if stacked_statement_pattern sql
      then \<lparr>safe = False, reason = Some ''Potentially dangerous operation detected''\<rparr>
      else \<lparr>safe = True, reason = None\<rparr>) \<and>
   (\<not> safe (validateSafe astify sql mode)) =
     (\<not> isValid (analyze astify sql) \<or> (mode \<and> \<not> isReadOnly (analyze astify sql)) \<or>
      stacked_statement_pattern sql) \<and>
   (\<forall>message. astify sql = Inl message \<longrightarrow>
      validateSafe astify sql mode = \<lparr>safe = False, reason = Some (''Parse error: '' @ message)\<rparr>) \<and>
   \<not> safe (validateSafe astify ''SELECT 1; DROP TABLE customers'' mode) \<and>
   (astify ''DELETE FROM customers'' = Inr (Single stmt) \<and> statement_kind stmt = Some ''delete'' \<longrightarrow>
      safe (validateSafe astify ''DELETE FROM customers'' False) \<and>
      \<not> safe (validateSafe astify ''DELETE FROM customers'' True))"
proof -
  have parse: "validateSafe astify sql mode = \<lparr>safe = False, reason = Some (''Parse error: '' @ message)\<rparr>"
    if "astify sql = Inl message" for message
    using that by (simp add: validateSafe_def analyze_def initial_analysis_def)
  have drop: "\<not> safe (validateSafe astify ''SELECT 1; DROP TABLE customers'' mode)"
    by (simp add: validateSafe_unsafe_iff stacked_example)
  have del: "safe (validateSafe astify ''DELETE FROM customers'' False) \<and>
      \<not> safe (validateSafe astify ''DELETE FROM customers'' True)"
    if p: "astify ''DELETE FROM customers'' = Inr (Single stmt)"
      and k: "statement_kind stmt = Some ''delete''"
  proof -
    have v: "isValid (analyze astify ''DELETE FROM customers'')"
      using p by (simp add: analyze_isValid)
    have r: "\<not> isReadOnly (analyze astify ''DELETE FROM customers'')"
      using k analyze_single_isReadOnly [of astify "''DELETE FROM customers''" stmt, OF p]
      by (simp add: writeOperations_def)
    from v r not_stacked_example show ?thesis
      using validateSafe_unsafe_iff [of astify "''DELETE FROM customers''" False]
        validateSafe_unsafe_iff [of astify "''DELETE FROM customers''" True]
      by blast
  qed
  from parse drop del validateSafe_unfold [of astify sql mode]
    validateSafe_unsafe_iff [of astify sql mode]
  show ?thesis by blast
qed

text \<open>
  With the stand-in parser: the DELETE passes outside read-only mode and is refused inside
  it, and a text the parser rejects is refused with the parse error as the reason.
\<close>

theorem validateSafe_cases_witness:
  "safe (validateSafe sample_astify ''DELETE FROM customers'' False) \<and>
   \<not> safe (validateSafe sample_astify ''DELETE FROM customers'' True) \<and>
   validateSafe sample_astify ''SELEC 1'' True =
     \<lparr>safe = False, reason = Some ''Parse error: Unexpected input''\<rparr>"
proof -
  have p: "sample_astify ''DELETE FROM customers'' = Inr (Single (Some sample_delete))"
    by (simp add: sample_astify_def)
  have k: "statement_kind (Some sample_delete) = Some ''delete''"
    by (simp add: statement_kind_def sample_delete_def toLowerCase_def char_toLowerCase_def)
  have q: "sample_astify ''SELEC 1'' = Inl ''Unexpected input''"
    by (simp add: sample_astify_def)
  note th = validateSafe_cases [of sample_astify "''SELEC 1''" True "Some sample_delete"]
  from th p k have "safe (validateSafe sample_astify ''DELETE FROM customers'' False) \<and>
   \<not> safe (validateSafe sample_astify ''DELETE FROM customers'' True)" by blast
  moreover from th q have "validateSafe sample_astify ''SELEC 1'' True =
     \<lparr>safe = False, reason = Some (''Parse error: '' @ ''Unexpected input'')\<rparr>" by blast
  ultimately show ?thesis by simp
qed

lemma digits_1000: "digits 1000 = ''1000''"
  by code_simp

lemma number_toString_one_thousand: "number_toString one_thousand = ''1000''"
  by (simp add: number_toString_def one_thousand_def Abs_safe_integer_inverse digits_1000)

lemma number_toString_safe_integer:
  "- 9007199254740991 \<le> i \<Longrightarrow> i \<le> 9007199254740991 \<Longrightarrow>
   number_toString (SafeInteger (Abs_safe_integer i)) =
     (if i < 0 then ''-'' @ digits (nat (- i)) else digits (nat i))"
  by (simp add: number_toString_def Abs_safe_integer_inverse)

lemma addLimit_unfold:
  "addLimit sql limit_arg =
     (if contains_limit_clause (trim sql) then sql
      else if ci_starts_with ''SELECT'' (trim sql)
      then trim sql @ '' LIMIT '' @
           number_toString (case limit_arg of None \<Rightarrow> one_thousand | Some l \<Rightarrow> l)
      else sql)"
  by (simp add: addLimit_def Let_def regex_test_limit regex_test_select)

lemma addLimit_appends:
  "\<not> regex_test limit_pattern (trim sql) \<Longrightarrow> ci_starts_with ''SELECT'' (trim sql) \<Longrightarrow>
   addLimit sql limit_arg =
     trim sql @ '' LIMIT '' @
     number_toString (case limit_arg of None \<Rightarrow> one_thousand | Some l \<Rightarrow> l)"
  by (simp add: addLimit_unfold regex_test_limit)

lemma addLimit_keeps_limit: "regex_test limit_pattern (trim sql) \<Longrightarrow> addLimit sql limit_arg = sql"
  by (simp add: addLimit_unfold regex_test_limit)

lemma addLimit_keeps_other:
  "\<not> ci_starts_with ''SELECT'' (trim sql) \<Longrightarrow> addLimit sql limit_arg = sql"
  by (simp add: addLimit_unfold)

lemma addLimit_example_select:
  "addLimit ''SELECT * FROM t'' (Some one_thousand) = ''SELECT * FROM t LIMIT 1000''"
proof -
  have a: "\<not> regex_test limit_pattern (trim ''SELECT * FROM t'')" by code_simp
  have b: "ci_starts_with ''SELECT'' (trim ''SELECT * FROM t'')" by code_simp
  have c: "trim ''SELECT * FROM t'' = ''SELECT * FROM t''" by code_simp
  from addLimit_appends [OF a b, of "Some one_thousand"] show ?thesis
    by (simp add: c number_toString_one_thousand)
qed

lemma addLimit_example_limited:
  "addLimit ''SELECT * FROM t LIMIT 5'' None = ''SELECT * FROM t LIMIT 5''"
proof -
  have "regex_test limit_pattern (trim ''SELECT * FROM t LIMIT 5'')" by code_simp
  then show ?thesis by (rule addLimit_keeps_limit)
qed

lemma addLimit_example_update: "addLimit ''UPDATE t SET x=1'' None = ''UPDATE t SET x=1''"
proof -
  have "\<not> ci_starts_with ''SELECT'' (trim ''UPDATE t SET x=1'')" by code_simp
  then show ?thesis by (rule addLimit_keeps_other)
qed

text \<open>
  Claim C7. \<open>addLimit\<close> returns its input when the trimmed text contains a
  \<open>LIMIT <number>\<close> clause anywhere; otherwise, when the trimmed text starts with
  \<open>SELECT\<close> in any case, it returns the trimmed text followed by \<open>LIMIT\<close> and the
  limit as a template literal prints it (1000 when none is given): a safe integer in plain
  decimal, any other number as its \<open>ToString\<close> text; otherwise it returns its input.
\<close>

theorem addLimit_cases:
  "addLimit sql limit_arg =
     (if contains_limit_clause (trim sql) then sql
      else if ci_starts_with ''SELECT'' (trim sql)
      then trim sql @ '' LIMIT '' @
           number_toString (case limit_arg of None \<Rightarrow> one_thousand | Some l \<Rightarrow> l)
      else sql) \<and>
   number_toString one_thousand = ''1000'' \<and>
   (- 9007199254740991 \<le> i \<and> i \<le> 9007199254740991 \<longrightarrow>
      number_toString (SafeInteger (Abs_safe_integer i)) =
        (if i < 0 then ''-'' @ digits (nat (- i)) else digits (nat i))) \<and>
   number_toString (OtherNumber text) = text \<and>
   addLimit ''SELECT * FROM t'' (Some one_thousand) = ''SELECT * FROM t LIMIT 1000'' \<and>
   addLimit ''SELECT * FROM t LIMIT 5'' None = ''SELECT * FROM t LIMIT 5'' \<and>
   addLimit ''UPDATE t SET x=1'' None = ''UPDATE t SET x=1''"
proof -
  have "number_toString (OtherNumber text) = text"
    by (simp add: number_toString_def)
  with addLimit_unfold [of sql limit_arg] number_toString_one_thousand
    number_toString_safe_integer [of i] addLimit_example_select addLimit_example_limited
    addLimit_example_update
  show ?thesis by blast
qed

text \<open>
  A lowercase SELECT with surrounding blanks: the blanks go and the default limit is
  added. A limit of \<open>10^21\<close>, which prints as \<open>1e+21\<close>, is appended in that form, and
  the safe integer 25 in decimal.
\<close>

theorem addLimit_cases_witness:
  "addLimit ''  select id from t  '' None = ''select id from t LIMIT 1000'' \<and>
   addLimit ''select id from t'' (Some (OtherNumber ''1e+21'')) = ''select id from t LIMIT 1e+21'' \<and>
   number_toString (SafeInteger (Abs_safe_integer 25)) = ''25''"
proof -
  have a: "\<not> contains_limit_clause (trim ''  select id from t  '')"
    unfolding regex_test_limit [symmetric] by code_simp
  have b: "ci_starts_with ''SELECT'' (trim ''  select id from t  '')"
    by code_simp
  have c: "trim ''  select id from t  '' = ''select id from t''"
    by code_simp
  have a': "\<not> contains_limit_clause (trim ''select id from t'')"
    unfolding regex_test_limit [symmetric] by code_simp
  have b': "ci_starts_with ''SELECT'' (trim ''select id from t'')"
    by code_simp
  have c': "trim ''select id from t'' = ''select id from t''"
    by code_simp
  have d: "digits 25 = ''25''" by code_simp
  note th1 = addLimit_cases [of "''  select id from t  ''" None 25 "''1e+21''"]
  note th2 = addLimit_cases [of "''select id from t''" "Some (OtherNumber ''1e+21'')" 25 "''1e+21''"]
  from th1 a b have "addLimit ''  select id from t  '' None =
      trim ''  select id from t  '' @ '' LIMIT '' @ number_toString one_thousand"
    by simp
  moreover from th1 have "number_toString one_thousand = ''1000''" by blast
  moreover from th2 a' b' have "addLimit ''select id from t'' (Some (OtherNumber ''1e+21'')) =
      trim ''select id from t'' @ '' LIMIT '' @ number_toString (OtherNumber ''1e+21'')"
    by simp
  moreover from th2 have "number_toString (OtherNumber ''1e+21'') = ''1e+21''" by blast
  moreover from th1 have "number_toString (SafeInteger (Abs_safe_integer 25)) =
        (if (25::int) < 0 then ''-'' @ digits (nat (- 25)) else digits (nat 25))" by simp
  ultimately show ?thesis by (simp add: c c' d)
qed

section \<open>Properties of the tool registry\<close>

lemma validateSafe_reason:
  "\<not> safe (validateSafe astify sql mode) \<Longrightarrow> \<exists>r. reason (validateSafe astify sql mode) = Some r"
  by (simp add: validateSafe_unfold split: if_splits)

lemma registerTools_run_sql:
  "map_of (registerTools astify provider) ''run_sql'' = Some (run_sql_tool astify provider)"
  by (simp add: registerTools_def)

lemma registerTools_list:
  "registerTools astify provider =
     [(''list_tables'', list_tables_tool provider),
      (''describe_table'', describe_table_tool provider),
      (''generate_sql'', generate_sql_tool),
      (''explain_sql'', explain_sql_tool astify),
      (''run_sql'', run_sql_tool astify provider)]"
  by (simp add: registerTools_def)

text \<open>
  Claim C1. When \<open>validateSafe\<close> reports the text unsafe under the registry's current
  read-only mode, the \<open>run_sql\<close> handler throws an error whose message carries the
  validation reason and leaves the database side as it found it: no call reaches the
  provider, so \<open>runQuery\<close> is not invoked. Through \<open>executeTool\<close> the same failure
  arrives wrapped as a tool execution failure.
\<close>

theorem run_sql_unsafe_blocked:
  assumes "\<not> safe (validateSafe astify (arg_sql params) (readOnlyMode this))"
  shows "\<exists>r. reason (validateSafe astify (arg_sql params) (readOnlyMode this)) = Some r \<and>
           run_sql_handler astify provider this params w =
             (Inl (''SQL validation failed: '' @ r), w) \<and>
           executeTool \<lparr>tools = registerTools astify provider, reg_fields = this\<rparr>
               ''run_sql'' params w =
             (Inl (''Tool execution failed: SQL validation failed: '' @ r), w)"
proof -
  from validateSafe_reason [OF assms] obtain r
    where r: "reason (validateSafe astify (arg_sql params) (readOnlyMode this)) = Some r" ..
  have h: "run_sql_handler astify provider this params w =
             (Inl (''SQL validation failed: '' @ r), w)"
    using assms r by (simp add: run_sql_handler_def Let_def)
  have "executeTool \<lparr>tools = registerTools astify provider, reg_fields = this\<rparr>
               ''run_sql'' params w =
             (Inl (''Tool execution failed: SQL validation failed: '' @ r), w)"
    by (simp add: executeTool_def registerTools_run_sql run_sql_tool_def h)
  with r h show ?thesis by blast
qed

text \<open>
  In read-only mode the handler refuses a DELETE and the trace of provider calls stays
  empty.
\<close>

theorem run_sql_unsafe_blocked_witness:
  "run_sql_handler sample_astify sample_provider \<lparr>readOnlyMode = True, reg_metadata = None\<rparr>
     (sample_args ''DELETE FROM customers'') sample_db =
   (Inl ''SQL validation failed: Write operations not allowed in read-only mode'', sample_db)"
proof -
  have v: "validateSafe sample_astify ''DELETE FROM customers'' True =
      \<lparr>safe = False, reason = Some ''Write operations not allowed in read-only mode''\<rparr>"
    by (simp add: validateSafe_def analyze_def sample_astify_def initial_analysis_def
          sample_delete_def analyzeStatement_def toLowerCase_def char_toLowerCase_def
          writeOperations_def Let_def)
  have u: "\<not> safe (validateSafe sample_astify (arg_sql (sample_args ''DELETE FROM customers''))
              (readOnlyMode \<lparr>readOnlyMode = True, reg_metadata = None\<rparr>))"
    by (simp add: sample_args_def v)
  from run_sql_unsafe_blocked [OF u, of sample_provider sample_db] show ?thesis
    by (simp add: sample_args_def v)
qed

lemma run_sql_runs:
  "run_sql_handler sample_astify sample_provider \<lparr>readOnlyMode = True, reg_metadata = None\<rparr>
     (sample_args ''SELECT 1'') sample_db =
   (Inr (QueryOutcome [] 0 None True), \<lparr>db = 1, db_trace = [RunQueryCall ''SELECT 1 LIMIT 1000'']\<rparr>)"
proof -
  have a: "analyze sample_astify ''SELECT 1'' =
     \<lparr>isValid = True, isReadOnly = True, type = ''select'', tables = [], errors = [], warnings = []\<rparr>"
    by (simp add: analyze_def sample_astify_def initial_analysis_def
          sample_select_def analyzeStatement_def toLowerCase_def char_toLowerCase_def
          writeOperations_def Let_def)
  have r: "\<not> regex_test dangerous_pattern ''SELECT 1''" by code_simp
  have v: "validateSafe sample_astify ''SELECT 1'' True = \<lparr>safe = True, reason = None\<rparr>"
    using r by (simp add: validateSafe_def a Let_def del: regex_test.simps)
  have l: "addLimit ''SELECT 1'' (Some one_thousand) = ''SELECT 1 LIMIT 1000''"
  proof -
    have a: "\<not> regex_test limit_pattern (trim ''SELECT 1'')" by code_simp
    have b: "ci_starts_with ''SELECT'' (trim ''SELECT 1'')" by code_simp
    have c: "trim ''SELECT 1'' = ''SELECT 1''" by code_simp
    from addLimit_appends [OF a b, of "Some one_thousand"] show ?thesis
      by (simp add: c number_toString_one_thousand)
  qed
  show ?thesis
    by (simp add: run_sql_handler_def sample_args_def v a l Let_def call_runQuery_def
          sample_provider_def sample_db_def)
qed

text \<open>
  Claim C9 as stated fails: the objects \<open>getTools\<close> returns carry the handlers. The
  fifth tool of a fresh registry is \<open>run_sql\<close>, and calling the handler found in it runs
  a query on the provider.
\<close>

theorem getTools_exposes_handlers:
  "map name (getTools (new_MCPToolRegistry sample_astify sample_provider None)) =
     [''list_tables'', ''describe_table'', ''generate_sql'', ''explain_sql'', ''run_sql''] \<and>
   handler (getTools (new_MCPToolRegistry sample_astify sample_provider None) ! 4)
       \<lparr>readOnlyMode = True, reg_metadata = None\<rparr> (sample_args ''SELECT 1'') sample_db =
     (Inr (QueryOutcome [] 0 None True),
      \<lparr>db = 1, db_trace = [RunQueryCall ''SELECT 1 LIMIT 1000'']\<rparr>)"
  by (simp add: getTools_def new_MCPToolRegistry_def registerTools_list run_sql_runs
        list_tables_tool_def describe_table_tool_def generate_sql_tool_def explain_sql_tool_def
        run_sql_tool_def)

text \<open>
  Claim C9, amended. \<open>getTools\<close> returns the registered tool objects themselves, in
  registration order: each carries its name, description, parameter schema and handler.
  For a fresh registry these are the five built-in tools with their handlers.
\<close>

theorem getTools_returns_registered_tools:
  "getTools reg = map snd (tools reg) \<and>
   getTools (new_MCPToolRegistry astify provider metadata) =
     [list_tables_tool provider, describe_table_tool provider, generate_sql_tool,
      explain_sql_tool astify, run_sql_tool astify provider] \<and>
   map handler (getTools (new_MCPToolRegistry astify provider metadata)) =
     [list_tables_handler provider, describe_table_handler provider, generate_sql_handler,
      explain_sql_handler astify, run_sql_handler astify provider]"
  by (simp add: getTools_def new_MCPToolRegistry_def registerTools_list
        list_tables_tool_def describe_table_tool_def generate_sql_tool_def explain_sql_tool_def
        run_sql_tool_def)

section \<open>Properties of the orchestration loop\<close>

lemma call_llm_effect:
  "call_llm llmClient h c w = (r, w1) \<Longrightarrow>
   llm_calls w1 = Suc (llm_calls w) \<and> database w1 = database w \<and>
   (\<exists>l'. llmClient h c (llm w) = (r, l'))"
  by (auto simp: call_llm_def split: prod.splits)


lemma chat_loop_stop:
  "\<not> i < maxIterations \<Longrightarrow>
   chat_loop llmClient json i this w = (Inl ''Max iterations reached without final response'', this, w)"
  by (simp add: chat_loop.simps)

lemma chat_loop_llm_fails:
  "i < maxIterations \<Longrightarrow>
   call_llm llmClient (messages this) (getTools (toolRegistry this)) w = (Inl message, w1) \<Longrightarrow>
   chat_loop llmClient json i this w = (Inl message, this, w1)"
  by (simp add: chat_loop.simps)

lemma chat_loop_done:
  "i < maxIterations \<Longrightarrow>
   call_llm llmClient (messages this) (getTools (toolRegistry this)) w = (Inr response, w1) \<Longrightarrow>
   \<not> has_tool_calls response \<Longrightarrow>
   chat_loop llmClient json i this w =
     (Inr (parseResponse json (content response)),
      this\<lparr>messages := messages this @ [response]\<rparr>, w1)"
  by (simp add: chat_loop.simps)

lemma chat_loop_step:
  "i < maxIterations \<Longrightarrow>
   call_llm llmClient (messages this) (getTools (toolRegistry this)) w = (Inr response, w1) \<Longrightarrow>
   has_tool_calls response \<Longrightarrow>
   run_tool_calls json (toolRegistry this) (the (tool_calls response))
     (messages this @ [response]) (database w1) = (history, d) \<Longrightarrow>
   chat_loop llmClient json i this w =
     chat_loop llmClient json (Suc i) (this\<lparr>messages := history\<rparr>) (w1\<lparr>database := d\<rparr>)"
  by (simp add: chat_loop.simps [of llmClient json i])

lemma chat_loop_always_tool_calls:
  "\<forall>h c l. \<exists>m l'. llmClient h c l = (Inr m, l') \<and> has_tool_calls m \<Longrightarrow>
         i \<le> maxIterations \<Longrightarrow>
         fst (chat_loop llmClient json i this w) =
           Inl ''Max iterations reached without final response'' \<and>
         llm_calls (snd (snd (chat_loop llmClient json i this w))) =
           llm_calls w + (maxIterations - i)"
proof (induction llmClient json i this w rule: chat_loop.induct)
  case (1 llmClient json iterations this w)
  show ?case
  proof (cases "iterations < maxIterations")
    case False
    then show ?thesis by (simp add: chat_loop_stop)
  next
    case True
    obtain x w1 where c: "call_llm llmClient (messages this) (getTools (toolRegistry this)) w = (x, w1)"
      by (cases "call_llm llmClient (messages this) (getTools (toolRegistry this)) w")
    from call_llm_effect [OF c] obtain l' where
      n: "llm_calls w1 = Suc (llm_calls w)" and
      l: "llmClient (messages this) (getTools (toolRegistry this)) (llm w) = (x, l')" by blast
    from "1.prems"(1) l obtain response where x: "x = Inr response" and tc: "has_tool_calls response"
      by (metis fst_conv)
    obtain history d where
      t: "run_tool_calls json (toolRegistry this) (the (tool_calls response))
            (messages this @ [response]) (database w1) = (history, d)"
      by (cases "run_tool_calls json (toolRegistry this) (the (tool_calls response))
            (messages this @ [response]) (database w1)")
    have step: "chat_loop llmClient json iterations this w =
        chat_loop llmClient json (Suc iterations) (this\<lparr>messages := history\<rparr>) (w1\<lparr>database := d\<rparr>)"
      using chat_loop_step [OF True c [unfolded x] tc t] .
    from True have le: "Suc iterations \<le> maxIterations" by simp
    from "1.IH" [OF True c [symmetric] x tc t [symmetric] "1.prems"(1) le] step n le
    show ?thesis by simp
  qed
qed

lemma chat_loop_failure_origin:
  "chat_loop llmClient json i this w = (Inl e, this', w') \<Longrightarrow>
   e = ''Max iterations reached without final response'' \<or>
   (\<exists>h c l l'. llmClient h c l = (Inl e, l'))"
proof (induction llmClient json i this w rule: chat_loop.induct)
  case (1 llmClient json iterations this w)
  show ?case
  proof (cases "iterations < maxIterations")
    case False
    with "1.prems" show ?thesis by (simp add: chat_loop_stop)
  next
    case True
    obtain x w1 where c: "call_llm llmClient (messages this) (getTools (toolRegistry this)) w = (x, w1)"
      by (cases "call_llm llmClient (messages this) (getTools (toolRegistry this)) w")
    from call_llm_effect [OF c] obtain l' where
      l: "llmClient (messages this) (getTools (toolRegistry this)) (llm w) = (x, l')" by blast
    show ?thesis
    proof (cases x)
      case (Inl message)
      with "1.prems" True c have "e = message" by (simp add: chat_loop_llm_fails)
      with l Inl show ?thesis by blast
    next
      case (Inr response)
      show ?thesis
      proof (cases "has_tool_calls response")
        case False
        with "1.prems" True c Inr show ?thesis by (simp add: chat_loop_done)
      next
        case tc: True
        obtain history d where
          t: "run_tool_calls json (toolRegistry this) (the (tool_calls response))
                (messages this @ [response]) (database w1) = (history, d)"
          by (cases "run_tool_calls json (toolRegistry this) (the (tool_calls response))
                (messages this @ [response]) (database w1)")
        from "1.prems" chat_loop_step [OF True c [unfolded Inr] tc t]
        have "chat_loop llmClient json (Suc iterations) (this\<lparr>messages := history\<rparr>)
                (w1\<lparr>database := d\<rparr>) = (Inl e, this', w')" by simp
        from "1.IH" [OF True c [symmetric] Inr tc t [symmetric] this] show ?thesis .
      qed
    qed
  qed
qed

lemma run_tool_call_message:
  "run_tool_call json registry toolCall d = (m, d') \<Longrightarrow>
   role m = Tool \<and> tool_call_id m = Some (tc_id toolCall) \<and>
   msg_name m = Some (tc_function_name toolCall)"
  by (auto simp: run_tool_call_def tool_message_def split: sum.splits prod.splits)

lemma run_tool_calls_history:
  "run_tool_calls json registry calls history d = (h', d') \<Longrightarrow>
   \<exists>new. h' = history @ new \<and>
     map (\<lambda>m. (role m, tool_call_id m, msg_name m)) new =
     map (\<lambda>c. (Tool, Some (tc_id c), Some (tc_function_name c))) calls"
proof (induction calls arbitrary: history d)
  case Nil
  then show ?case by simp
next
  case (Cons toolCall calls)
  obtain m d1 where r: "run_tool_call json registry toolCall d = (m, d1)"
    by (cases "run_tool_call json registry toolCall d")
  with Cons.prems have "run_tool_calls json registry calls (history @ [m]) d1 = (h', d')"
    by simp
  from Cons.IH [OF this] obtain new where
    new: "h' = (history @ [m]) @ new"
      "map (\<lambda>m. (role m, tool_call_id m, msg_name m)) new =
       map (\<lambda>c. (Tool, Some (tc_id c), Some (tc_function_name c))) calls" by blast
  from run_tool_call_message [OF r] new
  have "h' = history @ (m # new) \<and>
     map (\<lambda>m. (role m, tool_call_id m, msg_name m)) (m # new) =
     map (\<lambda>c. (Tool, Some (tc_id c), Some (tc_function_name c))) (toolCall # calls)"
    by simp
  then show ?case by blast
qed

lemma run_tool_calls_append:
  "run_tool_calls json registry (calls1 @ calls2) history d =
     (case run_tool_calls json registry calls1 history d of
        (h1, d1) \<Rightarrow> run_tool_calls json registry calls2 h1 d1)"
  by (induction calls1 arbitrary: history d) (auto split: prod.splits)

lemma chat_loop_history:
  "chat_loop llmClient json i this w = (r, this', w') \<Longrightarrow>
   (\<exists>new. messages this' = messages this @ new) \<and> systemPrompt this' = systemPrompt this \<and>
   orch_metadata this' = orch_metadata this \<and> toolRegistry this' = toolRegistry this"
proof (induction llmClient json i this w rule: chat_loop.induct)
  case (1 llmClient json iterations this w)
  show ?case
  proof (cases "iterations < maxIterations")
    case False
    with "1.prems" show ?thesis by (simp add: chat_loop_stop)
  next
    case True
    obtain x w1 where c: "call_llm llmClient (messages this) (getTools (toolRegistry this)) w = (x, w1)"
      by (cases "call_llm llmClient (messages this) (getTools (toolRegistry this)) w")
    show ?thesis
    proof (cases x)
      case (Inl message)
      with "1.prems" True c show ?thesis by (simp add: chat_loop_llm_fails)
    next
      case (Inr response)
      show ?thesis
      proof (cases "has_tool_calls response")
        case False
        with "1.prems" True c Inr show ?thesis by (auto simp: chat_loop_done)
      next
        case tc: True
        obtain history d where
          t: "run_tool_calls json (toolRegistry this) (the (tool_calls response))
                (messages this @ [response]) (database w1) = (history, d)"
          by (cases "run_tool_calls json (toolRegistry this) (the (tool_calls response))
                (messages this @ [response]) (database w1)")
        from run_tool_calls_history [OF t] obtain new1 where
          h: "history = (messages this @ [response]) @ new1" by blast
        from "1.prems" chat_loop_step [OF True c [unfolded Inr] tc t]
        have "chat_loop llmClient json (Suc iterations) (this\<lparr>messages := history\<rparr>)
                (w1\<lparr>database := d\<rparr>) = (r, this', w')" by simp
        from "1.IH" [OF True c [symmetric] Inr tc t [symmetric] this]
        obtain new2 where "messages this' = history @ new2"
          "systemPrompt this' = systemPrompt this" "orch_metadata this' = orch_metadata this"
          "toolRegistry this' = toolRegistry this" by auto
        with h have "messages this' = messages this @ (response # new1 @ new2) \<and>
          systemPrompt this' = systemPrompt this \<and> orch_metadata this' = orch_metadata this \<and>
          toolRegistry this' = toolRegistry this" by simp
        then show ?thesis by blast
      qed
    qed
  qed
qed



lemma sample_executeTool_fails:
  "executeTool sample_registry ''run_sql'' (sample_args ''DELETE FROM customers'') sample_db =
     (Inl ''Tool execution failed: SQL validation failed: Write operations not allowed in read-only mode'',
      sample_db)"
  by (simp add: executeTool_def sample_registry_def new_MCPToolRegistry_def
        registerTools_run_sql run_sql_tool_def run_sql_handler_def sample_args_def
        sample_delete_refused Let_def)

lemma run_tool_call_decode_fails:
  "parse_args json (tc_function_arguments toolCall) = Inl message \<Longrightarrow>
   run_tool_call json registry toolCall d = (tool_message toolCall (stringify_error message), d)"
  by (simp add: run_tool_call_def)

lemma run_tool_call_tool_fails:
  "parse_args json (tc_function_arguments toolCall) = Inr args \<Longrightarrow>
   executeTool registry (tc_function_name toolCall) args d = (Inl message, d') \<Longrightarrow>
   run_tool_call json registry toolCall d = (tool_message toolCall (stringify_error message), d')"
  by (simp add: run_tool_call_def)

lemma run_tool_calls_all_fail:
  "\<forall>c \<in> set calls.
      parse_args json (tc_function_arguments c) = Inl (failure c) \<or>
      (\<exists>args. parse_args json (tc_function_arguments c) = Inr args \<and>
         (\<forall>d0. executeTool registry (tc_function_name c) args d0 = (Inl (failure c), d0))) \<Longrightarrow>
   run_tool_calls json registry calls history d =
     (history @ map (\<lambda>c. tool_message c (stringify_error (failure c))) calls, d)"
proof (induction calls arbitrary: history)
  case Nil
  then show ?case by simp
next
  case (Cons c calls)
  from Cons.prems have
    "parse_args json (tc_function_arguments c) = Inl (failure c) \<or>
      (\<exists>args. parse_args json (tc_function_arguments c) = Inr args \<and>
         (\<forall>d0. executeTool registry (tc_function_name c) args d0 = (Inl (failure c), d0)))"
    by simp
  then have one: "run_tool_call json registry c d = (tool_message c (stringify_error (failure c)), d)"
  proof
    assume "parse_args json (tc_function_arguments c) = Inl (failure c)"
    then show ?thesis by (rule run_tool_call_decode_fails)
  next
    assume "\<exists>args. parse_args json (tc_function_arguments c) = Inr args \<and>
         (\<forall>d0. executeTool registry (tc_function_name c) args d0 = (Inl (failure c), d0))"
    then obtain args where "parse_args json (tc_function_arguments c) = Inr args"
      "executeTool registry (tc_function_name c) args d = (Inl (failure c), d)" by blast
    then show ?thesis by (rule run_tool_call_tool_fails)
  qed
  from Cons.prems have
    "\<forall>c \<in> set calls.
      parse_args json (tc_function_arguments c) = Inl (failure c) \<or>
      (\<exists>args. parse_args json (tc_function_arguments c) = Inr args \<and>
         (\<forall>d0. executeTool registry (tc_function_name c) args d0 = (Inl (failure c), d0)))"
    by simp
  from Cons.IH [OF this, of "history @ [tool_message c (stringify_error (failure c))]"] one
  show ?case by simp
qed

lemma chat_loop_round:
  "i < maxIterations \<Longrightarrow>
   call_llm llmClient (messages this) (getTools (toolRegistry this)) w = (Inr response, w1) \<Longrightarrow>
   has_tool_calls response \<Longrightarrow>
   chat_loop llmClient json i this w =
     (case run_tool_calls json (toolRegistry this) (the (tool_calls response))
             (messages this @ [response]) (database w1) of
        (history, d) \<Rightarrow>
          chat_loop llmClient json (Suc i) (this\<lparr>messages := history\<rparr>) (w1\<lparr>database := d\<rparr>))"
  by (simp add: chat_loop.simps [of llmClient json i])

lemma json_escape_char_plain:
  assumes "32 \<le> (of_char c :: nat)" and "c \<noteq> CHR 0x22" and "c \<noteq> CHR 0x5C"
  shows "json_escape_char c = [c]"
proof -
  have "(of_char c :: nat) \<noteq> 34"
  proof
    assume "(of_char c :: nat) = 34"
    then have "(of_char c :: nat) = of_char (CHR 0x22)" by simp
    then have "c = CHR 0x22" by (simp only: of_char_eq_iff)
    with assms(2) show False by simp
  qed
  moreover have "(of_char c :: nat) \<noteq> 92"
  proof
    assume "(of_char c :: nat) = 92"
    then have "(of_char c :: nat) = of_char (CHR 0x5C)" by simp
    then have "c = CHR 0x5C" by (simp only: of_char_eq_iff)
    with assms(3) show False by simp
  qed
  ultimately show ?thesis using assms(1) by (simp add: json_escape_char_def Let_def)
qed

lemma json_quote_plain:
  "\<forall>c \<in> set msg. 32 \<le> (of_char c :: nat) \<and> c \<noteq> CHR 0x22 \<and> c \<noteq> CHR 0x5C \<Longrightarrow>
   json_quote msg = [CHR 0x22] @ msg @ [CHR 0x22]"
proof -
  assume plain: "\<forall>c \<in> set msg. 32 \<le> (of_char c :: nat) \<and> c \<noteq> CHR 0x22 \<and> c \<noteq> CHR 0x5C"
  then have "concat (map json_escape_char msg) = msg"
    by (induction msg) (simp_all add: json_escape_char_plain)
  then show ?thesis by (simp add: json_quote_def)
qed

lemma stringify_error_plain:
  \<open>\<forall>c \<in> set message. 32 \<le> (of_char c :: nat) \<and> c \<noteq> CHR 0x22 \<and> c \<noteq> CHR 0x5C \<Longrightarrow>
   stringify_error message = ''{"error":"'' @ message @ ''"}''\<close>
  by (simp add: stringify_error_def json_quote_plain)

lemma stringify_error_text:
  \<open>stringify_error message = ''{"error":'' @ json_quote message @ ''}''\<close>
  by (simp add: stringify_error_def)

text \<open>
  Claim C4. For one tool call: when decoding the arguments fails, or when the tool
  fails, the loop's message for it is the tool message that holds the text of
  \<open>{error: message}\<close> (the message quoted as JSON quotes a string; a message of plain
  characters stands between the quotes as it is) together with the id and the name of the
  call. The loop over the
  calls of one reply runs them in array order, each through that one step, and appends
  the message of each to the history; when every call fails, what it appends is exactly
  the error messages of the calls, in order. A round whose reply carries tool calls is
  followed by the next round, on the history with those tool messages, whatever the tools
  did: with a client that always asks for a tool, \<open>chat\<close> reaches the iteration cap after
  five rounds even if every tool fails. No tool failure leaves \<open>chat\<close>: an error of
  \<open>chat\<close> is the iteration cap or an error the LLM client threw.
\<close>

theorem tool_failure_becomes_tool_message:
  \<open>(parse_args json (tc_function_arguments toolCall) = Inl message \<longrightarrow>
      run_tool_call json registry toolCall d =
        (tool_message toolCall (stringify_error message), d)) \<and>
   (parse_args json (tc_function_arguments toolCall) = Inr args \<and>
    executeTool registry (tc_function_name toolCall) args d = (Inl message, d') \<longrightarrow>
      run_tool_call json registry toolCall d =
        (tool_message toolCall (stringify_error message), d')) \<and>
   tool_message toolCall text =
     \<lparr>role = Tool, content = text, msg_name = Some (tc_function_name toolCall),
      tool_calls = None, tool_call_id = Some (tc_id toolCall)\<rparr> \<and>
   stringify_error message = ''{"error":'' @ json_quote message @ ''}'' \<and>
   ((\<forall>c \<in> set message. 32 \<le> (of_char c :: nat) \<and> c \<noteq> CHR 0x22 \<and> c \<noteq> CHR 0x5C) \<longrightarrow>
      stringify_error message = ''{"error":"'' @ message @ ''"}'') \<and>
   run_tool_calls json registry [] history d = (history, d) \<and>
   run_tool_calls json registry (toolCall # calls) history d =
     (case run_tool_call json registry toolCall d of
        (m, d1) \<Rightarrow> run_tool_calls json registry calls (history @ [m]) d1) \<and>
   ((\<forall>c \<in> set calls.
        parse_args json (tc_function_arguments c) = Inl (failure c) \<or>
        (\<exists>args. parse_args json (tc_function_arguments c) = Inr args \<and>
           (\<forall>d0. executeTool registry (tc_function_name c) args d0 = (Inl (failure c), d0)))) \<longrightarrow>
      run_tool_calls json registry calls history d =
        (history @ map (\<lambda>c. tool_message c (stringify_error (failure c))) calls, d)) \<and>
   (run_tool_calls json registry calls history d = (history', d') \<longrightarrow>
      (\<exists>new. history' = history @ new \<and>
         map (\<lambda>m. (role m, tool_call_id m, msg_name m)) new =
         map (\<lambda>c. (Tool, Some (tc_id c), Some (tc_function_name c))) calls)) \<and>
   run_tool_calls json registry (calls1 @ calls2) history d =
     (case run_tool_calls json registry calls1 history d of
        (h1, d1) \<Rightarrow> run_tool_calls json registry calls2 h1 d1) \<and>
   (i < maxIterations \<and>
    call_llm llmClient (messages this) (getTools (toolRegistry this)) w = (Inr response, w1) \<and>
    has_tool_calls response \<longrightarrow>
      chat_loop llmClient json i this w =
        (case run_tool_calls json (toolRegistry this) (the (tool_calls response))
                (messages this @ [response]) (database w1) of
           (history2, d2) \<Rightarrow>
             chat_loop llmClient json (Suc i) (this\<lparr>messages := history2\<rparr>)
               (w1\<lparr>database := d2\<rparr>))) \<and>
   ((\<forall>h c l. \<exists>m l'. llmClient h c l = (Inr m, l') \<and> has_tool_calls m) \<longrightarrow>
      fst (chat llmClient json userMessage this w) =
        Inl ''Max iterations reached without final response'' \<and>
      llm_calls (snd (snd (chat llmClient json userMessage this w))) = llm_calls w + 5) \<and>
   (chat llmClient json userMessage this w = (Inl e, this', w') \<longrightarrow>
      e = ''Max iterations reached without final response'' \<or>
      (\<exists>h c l l'. llmClient h c l = (Inl e, l')))\<close>
proof -
  have a: "run_tool_call json registry toolCall d =
        (tool_message toolCall (stringify_error message), d)"
    if "parse_args json (tc_function_arguments toolCall) = Inl message"
    using that by (rule run_tool_call_decode_fails)
  have b: "run_tool_call json registry toolCall d =
        (tool_message toolCall (stringify_error message), d')"
    if "parse_args json (tc_function_arguments toolCall) = Inr args"
      "executeTool registry (tc_function_name toolCall) args d = (Inl message, d')"
    using that by (rule run_tool_call_tool_fails)
  have c: "tool_message toolCall text =
     \<lparr>role = Tool, content = text, msg_name = Some (tc_function_name toolCall),
      tool_calls = None, tool_call_id = Some (tc_id toolCall)\<rparr>"
    by (simp add: tool_message_def)
  have n: "run_tool_calls json registry [] history d = (history, d)" by simp
  have k: "run_tool_calls json registry (toolCall # calls) history d =
     (case run_tool_call json registry toolCall d of
        (m, d1) \<Rightarrow> run_tool_calls json registry calls (history @ [m]) d1)" by simp
  have g: "fst (chat llmClient json userMessage this w) =
        Inl ''Max iterations reached without final response'' \<and>
      llm_calls (snd (snd (chat llmClient json userMessage this w))) = llm_calls w + 5"
    if "\<forall>h c l. \<exists>m l'. llmClient h c l = (Inr m, l') \<and> has_tool_calls m"
    using chat_loop_always_tool_calls
      [OF that, of 0 json "this\<lparr>messages := messages this @ [user_message userMessage]\<rparr>" w]
    by (simp add: chat_def maxIterations_def)
  have f: "e = ''Max iterations reached without final response'' \<or>
      (\<exists>h c l l'. llmClient h c l = (Inl e, l'))"
    if "chat llmClient json userMessage this w = (Inl e, this', w')"
    using that chat_loop_failure_origin [of llmClient json 0 _ w e this' w']
    by (simp add: chat_def)
  from a b c n k g f stringify_error_text [of message] stringify_error_plain [of message]
    run_tool_calls_all_fail [of calls json failure registry history d]
    run_tool_calls_history [of json registry calls history d history' d']
    run_tool_calls_append [of json registry calls1 calls2 history d]
    chat_loop_round [of i llmClient "this" w response w1 json]
  show ?thesis by blast
qed

lemma sample_error_text:
  \<open>stringify_error
     ''Tool execution failed: SQL validation failed: Write operations not allowed in read-only mode'' =
   ''{"error":"Tool execution failed: SQL validation failed: Write operations not allowed in read-only mode"}''\<close>
  by code_simp

text \<open>
  The stand-in client asks for \<open>run_sql\<close> with a DELETE; the registry refuses it in
  read-only mode, the loop turns that failure into the tool message of the call, and
  \<open>chat\<close> goes on to the cap.
\<close>

theorem tool_failure_becomes_tool_message_witness:
  \<open>run_tool_calls sample_json sample_registry [sample_tool_call] [] sample_db =
     ([\<lparr>role = Tool,
        content = ''{"error":"Tool execution failed: SQL validation failed: Write operations not allowed in read-only mode"}'',
        msg_name = Some ''run_sql'', tool_calls = None, tool_call_id = Some ''call_1''\<rparr>],
      sample_db) \<and>
   fst (chat sample_llm sample_json ''How many customers?'' sample_orchestrator sample_world) =
     Inl ''Max iterations reached without final response''\<close>
proof -
  have p: "parse_args sample_json (tc_function_arguments sample_tool_call) =
             Inr (sample_args ''DELETE FROM customers'')"
    by (simp add: sample_json_def sample_tool_call_def)
  have x: "\<forall>d0. executeTool sample_registry (tc_function_name sample_tool_call)
             (sample_args ''DELETE FROM customers'') d0 =
           (Inl ''Tool execution failed: SQL validation failed: Write operations not allowed in read-only mode'',
            d0)"
    by (simp add: executeTool_def sample_registry_def new_MCPToolRegistry_def
        registerTools_run_sql run_sql_tool_def run_sql_handler_def sample_args_def
        sample_delete_refused Let_def sample_tool_call_def)
  have all: "\<forall>c \<in> set [sample_tool_call].
        parse_args sample_json (tc_function_arguments c) =
          Inl ((\<lambda>c. ''Tool execution failed: SQL validation failed: Write operations not allowed in read-only mode'') c) \<or>
        (\<exists>args. parse_args sample_json (tc_function_arguments c) = Inr args \<and>
           (\<forall>d0. executeTool sample_registry (tc_function_name c) args d0 =
              (Inl ((\<lambda>c. ''Tool execution failed: SQL validation failed: Write operations not allowed in read-only mode'') c), d0)))"
    using p x by simp
  have h: "\<forall>h c l. \<exists>m l'. sample_llm h c l = (Inr m, l') \<and> has_tool_calls m"
    by (simp add: sample_llm_def has_tool_calls_def sample_tool_call_def)
  note th = tool_failure_becomes_tool_message
    [of sample_json sample_tool_call _ sample_registry sample_db _ _ _ "[]" "[sample_tool_call]"
        "\<lambda>c. ''Tool execution failed: SQL validation failed: Write operations not allowed in read-only mode''"
        _ _ _ _ sample_llm sample_orchestrator sample_world _ _ "''How many customers?''"]
  from th all
  have "run_tool_calls sample_json sample_registry [sample_tool_call] [] sample_db =
        ([] @ map (\<lambda>c. tool_message c (stringify_error
            ''Tool execution failed: SQL validation failed: Write operations not allowed in read-only mode''))
           [sample_tool_call], sample_db)"
    by blast
  moreover from th h
  have "fst (chat sample_llm sample_json ''How many customers?'' sample_orchestrator sample_world) =
     Inl ''Max iterations reached without final response''"
    by blast
  ultimately show ?thesis
    by (simp add: tool_message_def sample_tool_call_def sample_error_text)
qed

lemma initializeSystemPrompt_messages:
  "messages (initializeSystemPrompt t) = [system_message (systemPrompt (initializeSystemPrompt t))]"
  by (simp add: initializeSystemPrompt_def Let_def)

lemma initializeSystemPrompt_metadata:
  "orch_metadata (initializeSystemPrompt t) = orch_metadata t"
  by (simp add: initializeSystemPrompt_def Let_def)

lemma initializeSystemPrompt_registry:
  "toolRegistry (initializeSystemPrompt t) = toolRegistry t"
  by (simp add: initializeSystemPrompt_def Let_def)

lemma initializeSystemPrompt_prompt:
  "systemPrompt (initializeSystemPrompt t) =
     prompt_text
       (case orch_metadata t of
          Some metadata \<Rightarrow> generateCompactSchema metadata
        | None \<Rightarrow> ''No schema loaded yet.'')
       (join [CHR 0x0A]
          (map (\<lambda>tool. ''- '' @ name tool @ '': '' @ description tool) (getTools (toolRegistry t))))"
  by (simp add: initializeSystemPrompt_def Let_def)

text \<open>
  Claim C8. A new orchestrator's history is exactly one system message, which holds the
  system prompt built from the prompt template, the compact schema of the metadata (or
  the note that no schema is loaded) and the list of the registry's tools.
  \<open>clearHistory\<close> and \<open>setMetadata\<close> rebuild that prompt, from the current and from
  the new metadata, and reset the history to exactly one system message holding it.
  \<open>chat\<close> only appends to the history (the user message first) and leaves the prompt
  alone, so the first message stays the system message.
\<close>

theorem history_begins_with_system_message:
  "messages (new_ChatOrchestrator registry metadata) =
     [system_message (systemPrompt (new_ChatOrchestrator registry metadata))] \<and>
   systemPrompt (new_ChatOrchestrator registry metadata) =
     prompt_text
       (case metadata of
          Some m \<Rightarrow> generateCompactSchema m
        | None \<Rightarrow> ''No schema loaded yet.'')
       (join [CHR 0x0A]
          (map (\<lambda>tool. ''- '' @ name tool @ '': '' @ description tool) (getTools registry))) \<and>
   role (system_message prompt) = System \<and> content (system_message prompt) = prompt \<and>
   messages (clearHistory this) = [system_message (systemPrompt (clearHistory this))] \<and>
   systemPrompt (clearHistory this) =
     prompt_text
       (case orch_metadata this of
          Some m \<Rightarrow> generateCompactSchema m
        | None \<Rightarrow> ''No schema loaded yet.'')
       (join [CHR 0x0A]
          (map (\<lambda>tool. ''- '' @ name tool @ '': '' @ description tool)
             (getTools (toolRegistry this)))) \<and>
   orch_metadata (clearHistory this) = orch_metadata this \<and>
   toolRegistry (clearHistory this) = toolRegistry this \<and>
   messages (setMetadata md this) = [system_message (systemPrompt (setMetadata md this))] \<and>
   systemPrompt (setMetadata md this) =
     prompt_text (generateCompactSchema md)
       (join [CHR 0x0A]
          (map (\<lambda>tool. ''- '' @ name tool @ '': '' @ description tool)
             (getTools (toolRegistry this)))) \<and>
   orch_metadata (setMetadata md this) = Some md \<and>
   toolRegistry (setMetadata md this) = toolRegistry this \<and>
   (chat llmClient json userMessage this w = (r, this', w') \<longrightarrow>
      (\<exists>new. messages this' = messages this @ user_message userMessage # new) \<and>
      systemPrompt this' = systemPrompt this \<and>
      (messages this \<noteq> [] \<longrightarrow> hd (messages this') = hd (messages this)))"
proof -
  have c: "(\<exists>new. messages this' = messages this @ user_message userMessage # new) \<and>
      systemPrompt this' = systemPrompt this \<and>
      (messages this \<noteq> [] \<longrightarrow> hd (messages this') = hd (messages this))"
    if "chat llmClient json userMessage this w = (r, this', w')"
  proof -
    from that chat_loop_history
      [of llmClient json 0 "this\<lparr>messages := messages this @ [user_message userMessage]\<rparr>" w r this' w']
    obtain new where n: "messages this' = (messages this @ [user_message userMessage]) @ new"
      and s: "systemPrompt this' = systemPrompt this"
      by (auto simp: chat_def)
    from n have "messages this' = messages this @ user_message userMessage # new" by simp
    with s show ?thesis by auto
  qed
  from c show ?thesis
    by (simp add: new_ChatOrchestrator_def clearHistory_def setMetadata_def system_message_def
          initializeSystemPrompt_messages initializeSystemPrompt_metadata
          initializeSystemPrompt_registry initializeSystemPrompt_prompt)
qed

lemma sample_tool_list:
  "join [CHR 0x0A]
     (map (\<lambda>tool. ''- '' @ name tool @ '': '' @ description tool) (getTools sample_registry)) =
   join [CHR 0x0A]
     [''- list_tables: List all tables in the database with their schemas'',
      ''- describe_table: Get detailed information about a table structure'',
      ''- generate_sql: Generate SQL query based on natural language description'',
      ''- explain_sql: Explain what a SQL query does in natural language'',
      ''- run_sql: Execute a SQL query and return results'']"
  by (simp add: getTools_def sample_registry_def new_MCPToolRegistry_def registerTools_list
        list_tables_tool_def describe_table_tool_def generate_sql_tool_def explain_sql_tool_def
        run_sql_tool_def)

text \<open>
  The stand-in orchestrator starts with the prompt for no schema and the five built-in
  tools; after a \<open>chat\<close> that ran into the cap its history still begins with the system
  message holding that prompt.
\<close>

theorem history_begins_with_system_message_witness:
  "systemPrompt sample_orchestrator =
     prompt_text ''No schema loaded yet.''
       (join [CHR 0x0A]
          [''- list_tables: List all tables in the database with their schemas'',
           ''- describe_table: Get detailed information about a table structure'',
           ''- generate_sql: Generate SQL query based on natural language description'',
           ''- explain_sql: Explain what a SQL query does in natural language'',
           ''- run_sql: Execute a SQL query and return results'']) \<and>
   hd (messages (fst (snd (chat sample_llm sample_json ''How many customers?''
         sample_orchestrator sample_world)))) =
     system_message (systemPrompt sample_orchestrator) \<and>
   role (hd (messages (fst (snd (chat sample_llm sample_json ''How many customers?''
         sample_orchestrator sample_world))))) = System"
proof -
  let ?c = "chat sample_llm sample_json ''How many customers?'' sample_orchestrator sample_world"
  have e: "?c = (fst ?c, fst (snd ?c), snd (snd ?c))" by simp
  note th = history_begins_with_system_message
    [of sample_registry None _ sample_orchestrator _ sample_llm sample_json
        "''How many customers?''" sample_world "fst ?c" "fst (snd ?c)" "snd (snd ?c)"]
  from th have s: "messages sample_orchestrator = [system_message (systemPrompt sample_orchestrator)]"
    unfolding sample_orchestrator_def by blast
  from th have "systemPrompt sample_orchestrator =
     prompt_text (case None :: DatabaseMetadata option of
          Some m \<Rightarrow> generateCompactSchema m
        | None \<Rightarrow> ''No schema loaded yet.'')
       (join [CHR 0x0A]
          (map (\<lambda>tool. ''- '' @ name tool @ '': '' @ description tool) (getTools sample_registry)))"
    unfolding sample_orchestrator_def by blast
  then have q: "systemPrompt sample_orchestrator =
     prompt_text ''No schema loaded yet.''
       (join [CHR 0x0A]
          [''- list_tables: List all tables in the database with their schemas'',
           ''- describe_table: Get detailed information about a table structure'',
           ''- generate_sql: Generate SQL query based on natural language description'',
           ''- explain_sql: Explain what a SQL query does in natural language'',
           ''- run_sql: Execute a SQL query and return results''])"
    by (simp only: sample_tool_list option.case)
  from s have ne: "messages sample_orchestrator \<noteq> []" by simp
  from th e ne have "hd (messages (fst (snd ?c))) = hd (messages sample_orchestrator)" by blast
  with s q show ?thesis by (simp add: system_message_def)
qed

end
